theory Spec2Isabelle
  imports Complex_Main
begin

section \<open>Data model: pandas frames as the script sees them\<close>

text \<open>
  The script \<^verbatim>\<open>cricket_analytics_app.py\<close> works on a pandas DataFrame. A cell is a
  number, a text, a truth value or the missing value NaN; a column (Series) carries its
  dtype next to its cells, because the script tests the dtype
  (\<^verbatim>\<open>dtype in ['int64', 'float64']\<close>) and never the cells. The dtypes are those
  \<^verbatim>\<open>pd.read_csv\<close> and \<^verbatim>\<open>pd.to_numeric\<close> give a column. Numbers are exact rationals: the
  rounding of float64 arithmetic is not modelled. A frame is its row labels and its
  columns in order.
\<close>

datatype dtype = Int64 | UInt64 | Float64 | Bool | Object

datatype cell = Num rat | Str string | Flag bool | NaN

record series =
  dtype :: dtype
  vals :: "cell list"

record dataframe =
  index :: "cell list"
  columns :: "(string \<times> series) list"

datatype error = KeyError string | TypeError | IndexError | ValueError | StreamlitAPIException

text \<open>\<^verbatim>\<open>col in df.columns\<close>, \<^verbatim>\<open>df[col]\<close> (KeyError when absent) and \<^verbatim>\<open>len(df)\<close>.\<close>

definition has_column :: "dataframe \<Rightarrow> string \<Rightarrow> bool" where
  "has_column df col = (col \<in> set (map fst (columns df)))"

definition getitem :: "dataframe \<Rightarrow> string \<Rightarrow> error + series" where
  "getitem df col =
     (case map_of (columns df) col of None \<Rightarrow> Inl (KeyError col) | Some s \<Rightarrow> Inr s)"

definition nrows :: "dataframe \<Rightarrow> nat" where
  "nrows df = length (index df)"

text \<open>
  What every frame built by \<^verbatim>\<open>pd.read_csv\<close> satisfies: column names are distinct and
  each column has one cell per row label. An int64 column holds integers of 64 bits and
  no missing value; a column of non-negative integers of which one does not fit int64 is
  uint64; a float64 column holds numbers and NaN; a bool column holds truth values; an
  object column holds what pandas left untyped: texts, truth values next to NaN, and,
  in a long file whose parts were typed apart, numbers next to texts.
\<close>

definition is_integral :: "rat \<Rightarrow> bool" where
  "is_integral q = (q = of_int \<lfloor>q\<rfloor>)"

definition in_int64 :: "rat \<Rightarrow> bool" where
  "in_int64 q = (is_integral q \<and> - (2 ^ 63) \<le> q \<and> q < 2 ^ 63)"

definition in_uint64 :: "rat \<Rightarrow> bool" where
  "in_uint64 q = (is_integral q \<and> 0 \<le> q \<and> q < 2 ^ 64)"

fun cell_ok :: "dtype \<Rightarrow> cell \<Rightarrow> bool" where
  "cell_ok Int64 (Num q) = in_int64 q"
| "cell_ok Int64 c = False"
| "cell_ok UInt64 (Num q) = in_uint64 q"
| "cell_ok UInt64 c = False"
| "cell_ok Float64 (Num q) = True"
| "cell_ok Float64 NaN = True"
| "cell_ok Float64 c = False"
| "cell_ok Bool (Flag b) = True"
| "cell_ok Bool c = False"
| "cell_ok Object c = True"

definition wf_series :: "nat \<Rightarrow> series \<Rightarrow> bool" where
  "wf_series n s = (length (vals s) = n \<and> list_all (cell_ok (dtype s)) (vals s))"

definition wf_df :: "dataframe \<Rightarrow> bool" where
  "wf_df df = (distinct (map fst (columns df)) \<and>
               list_all (\<lambda>p. wf_series (length (index df)) (snd p)) (columns df))"

section \<open>The Filter Engine (lines 74--81)\<close>

text \<open>
  \<^verbatim>\<open>Series.between(left, right)\<close> is inclusive on both sides; NaN is in no range, a
  truth value counts as 0 or 1, and comparing a text with a number raises TypeError.
  With \<^verbatim>\<open>None\<close> for both bounds every comparison is false and nothing is raised.
  \<^verbatim>\<open>Series.isin(values)\<close> is membership (NaN is a member of a list that holds NaN).
  \<^verbatim>\<open>df[mask]\<close> keeps the rows whose mask entry is true, with their labels and the
  dtypes of the columns.
\<close>

fun is_Str :: "cell \<Rightarrow> bool" where
  "is_Str (Str _) = True"
| "is_Str _ = False"

fun in_range :: "rat \<Rightarrow> rat \<Rightarrow> cell \<Rightarrow> bool" where
  "in_range left right (Num v) = (left \<le> v \<and> v \<le> right)"
| "in_range left right (Flag b) = (left \<le> of_bool b \<and> of_bool b \<le> right)"
| "in_range left right c = False"

definition between :: "series \<Rightarrow> rat \<Rightarrow> rat \<Rightarrow> error + bool list" where
  "between s left right =
     (if list_ex is_Str (vals s) then Inl TypeError
      else Inr (map (in_range left right) (vals s)))"

definition between_none :: "series \<Rightarrow> bool list" where
  "between_none s = map (\<lambda>c. False) (vals s)"

definition isin :: "series \<Rightarrow> cell list \<Rightarrow> bool list" where
  "isin s values = map (\<lambda>c. c \<in> set values) (vals s)"

definition select_rows :: "bool list \<Rightarrow> 'a list \<Rightarrow> 'a list" where
  "select_rows keep xs = map snd (filter fst (zip keep xs))"

definition getitem_mask :: "dataframe \<Rightarrow> bool list \<Rightarrow> dataframe" where
  "getitem_mask df keep =
     \<lparr>index = select_rows keep (index df),
      columns = map (\<lambda>p. (fst p, (snd p)\<lparr>vals := select_rows keep (vals (snd p))\<rparr>)) (columns df)\<rparr>"

text \<open>
  The filter itself. \<^verbatim>\<open>selected_years\<close> is the slider's pair, or \<^verbatim>\<open>(None, None)\<close>
  (here \<open>None\<close>) when the frame has no Year column; \<^verbatim>\<open>selected_players\<close> is the
  multiselect's list. Python evaluates the left operand of \<^verbatim>\<open>&\<close> first, so the Year
  mask is built before \<^verbatim>\<open>df['Player_Name']\<close> is read.
\<close>

definition apply_filters ::
  "dataframe \<Rightarrow> (rat \<times> rat) option \<Rightarrow> cell list \<Rightarrow> error + dataframe" where
  "apply_filters df selected_years selected_players =
     (if has_column df ''Year'' then
        (case getitem df ''Year'' of
           Inl e \<Rightarrow> Inl e
         | Inr year \<Rightarrow>
             (case (case selected_years of
                      None \<Rightarrow> Inr (between_none year)
                    | Some (lo, hi) \<Rightarrow> between year lo hi) of
                Inl e \<Rightarrow> Inl e
              | Inr in_years \<Rightarrow>
                  (case getitem df ''Player_Name'' of
                     Inl e \<Rightarrow> Inl e
                   | Inr names \<Rightarrow>
                       Inr (getitem_mask df
                              (map2 (\<and>) in_years (isin names selected_players))))))
      else
        (case getitem df ''Player_Name'' of
           Inl e \<Rightarrow> Inl e
         | Inr names \<Rightarrow> Inr (getitem_mask df (isin names selected_players))))"

section \<open>The Loader (lines 9--31)\<close>

text \<open>
  \<^verbatim>\<open>load_data\<close> starts from the frame \<^verbatim>\<open>pd.read_csv\<close> returns (or the exception it
  raises). \<^verbatim>\<open>pd.to_numeric(errors='coerce')\<close> leaves an int64, uint64, float64 or bool
  column as it is. On an object column it turns each text into the number it denotes or
  into NaN and each truth value into 0 or 1; the result is int64 when every cell is an
  integer of 64 bits, uint64 when every cell is a non-negative integer below
  \<open>2 ^ 64\<close>, and float64 otherwise, also when a text denotes a whole number in the
  notation of a float (\<^verbatim>\<open>'1.0'\<close>). An object column of no cell becomes int64, and one
  of truth values only becomes bool. Which texts denote which numbers is pandas'
  business: the parser is the parameter \<open>parse\<close>, which says for a text whether it is
  an integer literal, a float literal or neither.
  \<^verbatim>\<open>dropna(subset=['Year'])\<close> keeps the rows whose Year is not NaN. The \<^verbatim>\<open>try\<close> turns
  every exception into the result None.
\<close>

definition numeric_cols :: "string list" where
  "numeric_cols = [''Matches_Played'', ''Runs_Scored'', ''Batting_Average'',
                   ''Batting_Strike_Rate'', ''Centuries'', ''Half_Centuries'',
                   ''Wickets_Taken'', ''Bowling_Average'', ''Economy_Rate'']"

fun is_Flag :: "cell \<Rightarrow> bool" where
  "is_Flag (Flag b) = True"
| "is_Flag c = False"

datatype literal = IntLit int | FloatLit rat

type_synonym parser = "string \<Rightarrow> literal option"

fun coerce_cell :: "parser \<Rightarrow> cell \<Rightarrow> cell" where
  "coerce_cell parse (Str t) =
     (case parse t of
        Some (IntLit i) \<Rightarrow> Num (of_int i)
      | Some (FloatLit q) \<Rightarrow> Num q
      | None \<Rightarrow> NaN)"
| "coerce_cell parse (Flag b) = Num (of_bool b)"
| "coerce_cell parse c = c"

fun int_like :: "parser \<Rightarrow> cell \<Rightarrow> bool" where
  "int_like parse (Str t) = (case parse t of Some (IntLit i) \<Rightarrow> True | _ \<Rightarrow> False)"
| "int_like parse (Flag b) = True"
| "int_like parse (Num q) = is_integral q"
| "int_like parse NaN = False"

definition to_numeric :: "parser \<Rightarrow> series \<Rightarrow> series" where
  "to_numeric parse s =
     (if dtype s = Object then
        (if vals s = [] then \<lparr>dtype = Int64, vals = []\<rparr>
         else if list_all is_Flag (vals s) then \<lparr>dtype = Bool, vals = vals s\<rparr>
         else
           (let vs = map (coerce_cell parse) (vals s);
                ints = list_all (int_like parse) (vals s)
            in \<lparr>dtype = (if ints \<and> list_all (cell_ok Int64) vs then Int64
                         else if ints \<and> list_all (cell_ok UInt64) vs then UInt64
                         else Float64),
                vals = vs\<rparr>))
      else s)"

definition setitem :: "dataframe \<Rightarrow> string \<Rightarrow> series \<Rightarrow> dataframe" where
  "setitem df col s =
     (if has_column df col
      then df\<lparr>columns := map (\<lambda>p. if fst p = col then (col, s) else p) (columns df)\<rparr>
      else df\<lparr>columns := columns df @ [(col, s)]\<rparr>)"

definition dropna :: "dataframe \<Rightarrow> string \<Rightarrow> error + dataframe" where
  "dropna df col =
     (case getitem df col of
        Inl e \<Rightarrow> Inl e
      | Inr s \<Rightarrow> Inr (getitem_mask df (map (\<lambda>c. c \<noteq> NaN) (vals s))))"

fun coerce_columns ::
  "parser \<Rightarrow> string list \<Rightarrow> dataframe \<Rightarrow> error + dataframe" where
  "coerce_columns parse [] df = Inr df"
| "coerce_columns parse (col # cols) df =
     (if has_column df col then
        (case getitem df col of
           Inl e \<Rightarrow> Inl e
         | Inr s \<Rightarrow> coerce_columns parse cols (setitem df col (to_numeric parse s)))
      else coerce_columns parse cols df)"

definition load_data ::
  "parser \<Rightarrow> error + dataframe \<Rightarrow> dataframe option" where
  "load_data parse read_csv_result =
     (case read_csv_result of
        Inl e \<Rightarrow> None
      | Inr df0 \<Rightarrow>
          (case coerce_columns parse numeric_cols df0 of
             Inl e \<Rightarrow> None
           | Inr df \<Rightarrow>
               if has_column df ''Year'' then
                 (case getitem df ''Year'' of
                    Inl e \<Rightarrow> None
                  | Inr y \<Rightarrow>
                      (case dropna (setitem df ''Year'' (to_numeric parse y)) ''Year'' of
                         Inl e \<Rightarrow> None
                       | Inr df' \<Rightarrow> Some df'))
               else Some df))"

subsection \<open>The Year slider (lines 54--63)\<close>

text \<open>
  \<^verbatim>\<open>Series.min()\<close> and \<^verbatim>\<open>max()\<close> skip NaN and are NaN on a column with no number;
  \<^verbatim>\<open>int(x)\<close> truncates towards zero, reads a truth value as 0 or 1 and raises
  ValueError on NaN. \<^verbatim>\<open>st.sidebar.slider\<close> starts at the pair of truncated bounds, and
  raises when the lower bound is not below the upper one, as it is for a file with a
  single year.
\<close>

fun present :: "cell list \<Rightarrow> rat list" where
  "present [] = []"
| "present (Num v # cs) = v # present cs"
| "present (Flag b # cs) = of_bool b # present cs"
| "present (c # cs) = present cs"

definition series_min :: "series \<Rightarrow> cell" where
  "series_min s = (case present (vals s) of [] \<Rightarrow> NaN | x # xs \<Rightarrow> Num (fold min xs x))"

definition series_max :: "series \<Rightarrow> cell" where
  "series_max s = (case present (vals s) of [] \<Rightarrow> NaN | x # xs \<Rightarrow> Num (fold max xs x))"

definition py_int :: "rat \<Rightarrow> int" where
  "py_int q = (if 0 \<le> q then \<lfloor>q\<rfloor> else \<lceil>q\<rceil>)"

definition year_slider :: "dataframe \<Rightarrow> error + (rat \<times> rat) option" where
  "year_slider df =
     (if has_column df ''Year'' then
        (case getitem df ''Year'' of
           Inl e \<Rightarrow> Inl e
         | Inr y \<Rightarrow>
             (case (series_min y, series_max y) of
                (Num lo, Num hi) \<Rightarrow>
                  if py_int lo < py_int hi
                  then Inr (Some (of_int (py_int lo), of_int (py_int hi)))
                  else Inl StreamlitAPIException
              | _ \<Rightarrow> Inl ValueError))
      else Inr None)"

section \<open>The Metric Catalog (lines 121--122 and 319--320)\<close>

definition available_metrics :: "dataframe \<Rightarrow> string list" where
  "available_metrics fdf =
     filter (\<lambda>col. case getitem fdf col of
                      Inl e \<Rightarrow> False
                    | Inr s \<Rightarrow> dtype s = Int64 \<or> dtype s = Float64)
            (map fst (columns fdf))"

section \<open>The Aggregator (lines 197, 281 and 340--348)\<close>

text \<open>
  \<^verbatim>\<open>groupby('Player_Name')\<close> drops the rows whose key is NaN and orders the groups by
  key (texts by code point, numbers by value). Each reduction skips NaN: the mean, the
  maximum and the minimum of no number are NaN, the sum of no number is 0. The mean is
  float64, the other reductions keep the dtype of the column, and the sum of an int64
  column wraps around at 64 bits. The metric names come from widgets whose options are
  \<open>available_metrics\<close>, so the columns reduced are int64 or float64; the mean of a
  text column raises TypeError, and the reductions of the other columns that are not
  metrics, which the script cannot request, are rendered the same way.
\<close>

datatype agg_method = MeanM | SumM | MaxM | MinM

definition reduce :: "agg_method \<Rightarrow> cell list \<Rightarrow> cell" where
  "reduce m cs =
     (case present cs of
        [] \<Rightarrow> (case m of SumM \<Rightarrow> Num 0 | _ \<Rightarrow> NaN)
      | x # xs \<Rightarrow>
          (case m of
             MeanM \<Rightarrow> Num (sum_list (x # xs) / of_nat (length (x # xs)))
           | SumM \<Rightarrow> Num (sum_list (x # xs))
           | MaxM \<Rightarrow> Num (fold max xs x)
           | MinM \<Rightarrow> Num (fold min xs x)))"

fun str_le :: "string \<Rightarrow> string \<Rightarrow> bool" where
  "str_le [] t = True"
| "str_le (a # u) [] = False"
| "str_le (a # u) (b # t) =
     ((of_char a :: nat) < of_char b \<or> (a = b \<and> str_le u t))"

fun kind :: "cell \<Rightarrow> nat" where
  "kind (Num a) = 0"
| "kind (Flag a) = 1"
| "kind (Str a) = 2"
| "kind NaN = 3"

fun cell_le :: "cell \<Rightarrow> cell \<Rightarrow> bool" where
  "cell_le (Num a) (Num b) = (a \<le> b)"
| "cell_le (Str a) (Str b) = str_le a b"
| "cell_le (Flag a) (Flag b) = ((of_bool a :: nat) \<le> of_bool b)"
| "cell_le c d = (kind c \<le> kind d)"

fun insort_cell :: "cell \<Rightarrow> cell list \<Rightarrow> cell list" where
  "insort_cell c [] = [c]"
| "insort_cell c (d # ds) = (if cell_le c d then c # d # ds else d # insort_cell c ds)"

definition sort_cells :: "cell list \<Rightarrow> cell list" where
  "sort_cells cs = foldr insort_cell cs []"

definition group_keys :: "cell list \<Rightarrow> cell list" where
  "group_keys names = sort_cells (remdups (filter (\<lambda>c. c \<noteq> NaN) names))"

definition group_vals :: "cell \<Rightarrow> cell list \<Rightarrow> cell list \<Rightarrow> cell list" where
  "group_vals k names vs = map snd (filter (\<lambda>p. fst p = k) (zip names vs))"

definition wrap_int64 :: "rat \<Rightarrow> rat" where
  "wrap_int64 q = of_int ((\<lfloor>q\<rfloor> + 2 ^ 63) mod 2 ^ 64 - 2 ^ 63)"

definition agg_value :: "agg_method \<Rightarrow> dtype \<Rightarrow> cell list \<Rightarrow> cell" where
  "agg_value m dt cs =
     (case reduce m cs of
        Num v \<Rightarrow> if m = SumM \<and> dt = Int64 then Num (wrap_int64 v) else Num v
      | c \<Rightarrow> c)"

definition agg_series ::
  "agg_method \<Rightarrow> cell list \<Rightarrow> cell list \<Rightarrow> series \<Rightarrow> error + series" where
  "agg_series m keys names s =
     (if dtype s = Int64 \<or> dtype s = Float64
      then Inr \<lparr>dtype = (if m = MeanM then Float64 else dtype s),
                 vals = map (\<lambda>k. agg_value m (dtype s) (group_vals k names (vals s))) keys\<rparr>
      else Inl TypeError)"

fun agg_columns ::
  "agg_method \<Rightarrow> cell list \<Rightarrow> cell list \<Rightarrow> dataframe \<Rightarrow> string list
     \<Rightarrow> error + (string \<times> series) list" where
  "agg_columns m keys names fdf [] = Inr []"
| "agg_columns m keys names fdf (c # cs) =
     (case getitem fdf c of
        Inl e \<Rightarrow> Inl e
      | Inr s \<Rightarrow>
          (case agg_series m keys names s of
             Inl e \<Rightarrow> Inl e
           | Inr a \<Rightarrow>
               (case agg_columns m keys names fdf cs of
                  Inl e \<Rightarrow> Inl e
                | Inr rest \<Rightarrow> Inr ((c, a) # rest))))"

text \<open>\<^verbatim>\<open>filtered_df.groupby('Player_Name')[metrics].mean()\<close> and its siblings: the keys
  are the row labels of the result.\<close>

definition groupby_agg :: "agg_method \<Rightarrow> dataframe \<Rightarrow> string list \<Rightarrow> error + dataframe" where
  "groupby_agg m fdf metrics =
     (case getitem fdf ''Player_Name'' of
        Inl e \<Rightarrow> Inl e
      | Inr names \<Rightarrow>
          (let keys = group_keys (vals names)
           in case agg_columns m keys (vals names) fdf metrics of
                Inl e \<Rightarrow> Inl e
              | Inr cols \<Rightarrow> Inr \<lparr>index = keys, columns = cols\<rparr>))"

text \<open>\<^verbatim>\<open>reset_index()\<close> makes the key a first column (ValueError when a column has that
  name already) and numbers the rows from 0.\<close>

definition range_index :: "nat \<Rightarrow> cell list" where
  "range_index n = map (\<lambda>i. Num (of_nat i)) [0..<n]"

definition reset_index :: "string \<Rightarrow> dtype \<Rightarrow> dataframe \<Rightarrow> error + dataframe" where
  "reset_index key dt g =
     (if has_column g key then Inl ValueError
      else Inr \<lparr>index = range_index (nrows g),
                columns = (key, \<lparr>dtype = dt, vals = index g\<rparr>) # columns g\<rparr>)"

definition comparison_df :: "agg_method \<Rightarrow> dataframe \<Rightarrow> string list \<Rightarrow> error + dataframe" where
  "comparison_df m fdf metrics =
     (case groupby_agg m fdf metrics of
        Inl e \<Rightarrow> Inl e
      | Inr g \<Rightarrow>
          (case getitem fdf ''Player_Name'' of
             Inl e \<Rightarrow> Inl e
           | Inr names \<Rightarrow> reset_index ''Player_Name'' (dtype names) g))"

section \<open>The Chart Dispatcher\<close>

text \<open>
  A chart is recorded as the call that builds it: the plotly express function with its
  frame, its encodings (\<open>None\<close> where the script passes \<^verbatim>\<open>None\<close>), its dimensions and
  its title; a \<^verbatim>\<open>go.Figure\<close> with its traces; \<^verbatim>\<open>px.imshow\<close> with its frame and axes.
  What the plotting library does with a call is not part of the model; it may reject a
  call (parallel coordinates coloured by a text column, for one). A page returns
  what it shows, in order; an exception that no \<^verbatim>\<open>except\<close> catches ends the page.
\<close>

datatype viz = BarChart | LineChart | ScatterPlot | RadarChart | BoxPlot | ViolinPlot
             | ComboChart | Heatmap | ParallelCoordinates

datatype trace = Scatterpolar "cell list" "string list" cell
               | Bar series series "string option"
               | Scatter series series string

datatype figure =
    Express string dataframe "(string \<times> string option) list" "string list" string
  | Figure "trace list" string
  | Imshow dataframe "string list" "cell list" string

datatype rendered = Warning string | ErrorMsg string "error option"
                | PlotlyChart figure | DataTable dataframe

definition fmt :: "string option \<Rightarrow> string" where
  "fmt x = (case x of None \<Rightarrow> ''None'' | Some t \<Rightarrow> t)"

definition getitem_opt :: "dataframe \<Rightarrow> string option \<Rightarrow> error + series" where
  "getitem_opt df x = (case x of None \<Rightarrow> Inl (KeyError ''None'') | Some col \<Rightarrow> getitem df col)"

definition year_or :: "dataframe \<Rightarrow> string option \<Rightarrow> string option" where
  "year_or fdf alt = (if has_column fdf ''Year'' then Some ''Year'' else alt)"

subsection \<open>The radar loop (lines 201--208 and 405--412)\<close>

text \<open>
  \<^verbatim>\<open>radar_df['Player_Name'] == player\<close> compares cell by cell (NaN equals nothing);
  \<^verbatim>\<open>player_data[metrics]\<close> raises KeyError on an absent column and \<^verbatim>\<open>.values[0]\<close>
  raises IndexError on a frame with no row.
\<close>

definition eq_mask :: "series \<Rightarrow> cell \<Rightarrow> bool list" where
  "eq_mask s v = map (\<lambda>c. c = v \<and> c \<noteq> NaN) (vals s)"

fun select_columns :: "dataframe \<Rightarrow> string list \<Rightarrow> error + (string \<times> series) list" where
  "select_columns df [] = Inr []"
| "select_columns df (c # cs) =
     (case getitem df c of
        Inl e \<Rightarrow> Inl e
      | Inr s \<Rightarrow>
          (case select_columns df cs of
             Inl e \<Rightarrow> Inl e
           | Inr rest \<Rightarrow> Inr ((c, s) # rest)))"

fun heads :: "(string \<times> series) list \<Rightarrow> error + cell list" where
  "heads [] = Inr []"
| "heads (p # ps) =
     (case vals (snd p) of
        [] \<Rightarrow> Inl IndexError
      | v # vs \<Rightarrow> (case heads ps of Inl e \<Rightarrow> Inl e | Inr rest \<Rightarrow> Inr (v # rest)))"

definition first_row :: "dataframe \<Rightarrow> string list \<Rightarrow> error + cell list" where
  "first_row df metrics =
     (case select_columns df metrics of
        Inl e \<Rightarrow> Inl e
      | Inr cols \<Rightarrow> if nrows df = 0 then Inl IndexError else heads cols)"

fun radar_traces :: "dataframe \<Rightarrow> string list \<Rightarrow> cell list \<Rightarrow> error + trace list" where
  "radar_traces rdf metrics [] = Inr []"
| "radar_traces rdf metrics (player # rest) =
     (case getitem rdf ''Player_Name'' of
        Inl e \<Rightarrow> Inl e
      | Inr names \<Rightarrow>
          (case first_row (getitem_mask rdf (eq_mask names player)) metrics of
             Inl e \<Rightarrow> Inl e
           | Inr row \<Rightarrow>
               (case radar_traces rdf metrics rest of
                  Inl e \<Rightarrow> Inl e
                | Inr ts \<Rightarrow> Inr (Scatterpolar row metrics player # ts))))"

subsection \<open>The Performance Analysis page (lines 114--309)\<close>

text \<open>
  \<^verbatim>\<open>primary_metric\<close> is what the select box returns (\<open>None\<close> when there is no metric),
  \<^verbatim>\<open>secondary_metric\<close> is a metric or the text \<^verbatim>\<open>'None'\<close>, and \<open>metrics_sel\<close> is what
  the multiselect of the radar, heatmap or parallel-coordinates branch returns.
\<close>

definition performance_analysis ::
  "dataframe \<Rightarrow> cell list \<Rightarrow> viz \<Rightarrow> string option \<Rightarrow> string \<Rightarrow> string list
     \<Rightarrow> error + rendered list" where
  "performance_analysis fdf selected_players viz_type primary_metric secondary_metric metrics_sel =
     (if selected_players = [] then Inr [Warning ''Please select at least one player'']
      else
        (case viz_type of
           BarChart \<Rightarrow>
             Inr [PlotlyChart (Express ''bar'' fdf
                    [(''x'', Some ''Player_Name''), (''y'', primary_metric),
                     (''color'', Some ''Player_Name''),
                     (''animation_frame'', year_or fdf None)]
                    [] (fmt primary_metric @ '' Comparison''))]
         | LineChart \<Rightarrow>
             Inr [PlotlyChart (Express ''line'' fdf
                    [(''x'', year_or fdf (Some ''Player_Name'')), (''y'', primary_metric),
                     (''color'', Some ''Player_Name'')]
                    [] (fmt primary_metric @ '' Trend Over Time''))]
         | ScatterPlot \<Rightarrow>
             (if secondary_metric \<noteq> ''None'' then
                Inr [PlotlyChart (Express ''scatter'' fdf
                       [(''x'', primary_metric), (''y'', Some secondary_metric),
                        (''color'', Some ''Player_Name''),
                        (''size'', if has_column fdf ''Matches_Played''
                                   then Some ''Matches_Played'' else None),
                        (''hover_name'', year_or fdf (Some ''Player_Name''))]
                       [] (fmt primary_metric @ '' vs '' @ secondary_metric))]
              else Inr [Warning ''Please select a secondary metric for scatter plot''])
         | RadarChart \<Rightarrow>
             (if length selected_players > 0 then
                (if metrics_sel \<noteq> [] then
                   (case comparison_df MeanM fdf metrics_sel of
                      Inl e \<Rightarrow> Inl e
                    | Inr radar_df \<Rightarrow>
                        (case radar_traces radar_df metrics_sel selected_players of
                           Inl e \<Rightarrow> Inl e
                         | Inr ts \<Rightarrow>
                             Inr [PlotlyChart (Figure ts ''Player Comparison Radar Chart'')]))
                 else Inr [])
              else Inr [])
         | BoxPlot \<Rightarrow>
             Inr [PlotlyChart (Express ''box'' fdf
                    [(''x'', Some ''Player_Name''), (''y'', primary_metric),
                     (''color'', Some ''Player_Name'')]
                    [] (''Distribution of '' @ fmt primary_metric))]
         | ViolinPlot \<Rightarrow>
             Inr [PlotlyChart (Express ''violin'' fdf
                    [(''x'', Some ''Player_Name''), (''y'', primary_metric),
                     (''color'', Some ''Player_Name'')]
                    [] (''Distribution of '' @ fmt primary_metric))]
         | ComboChart \<Rightarrow>
             (if secondary_metric \<noteq> ''None'' then
                (case getitem fdf ''Player_Name'' of
                   Inl e \<Rightarrow> Inl e
                 | Inr names \<Rightarrow>
                     (case getitem_opt fdf primary_metric of
                        Inl e \<Rightarrow> Inl e
                      | Inr y1 \<Rightarrow>
                          (case getitem fdf secondary_metric of
                             Inl e \<Rightarrow> Inl e
                           | Inr y2 \<Rightarrow>
                               Inr [PlotlyChart (Figure
                                      [Bar names y1 primary_metric,
                                       Scatter names y2 secondary_metric]
                                      (fmt primary_metric @ '' vs '' @ secondary_metric))])))
              else Inr [Warning ''Please select a secondary metric for combo chart''])
         | Heatmap \<Rightarrow>
             (if length selected_players > 1 then
                (if metrics_sel \<noteq> [] then
                   (case groupby_agg MeanM fdf metrics_sel of
                      Inl e \<Rightarrow> Inl e
                    | Inr heatmap_df \<Rightarrow>
                        Inr [PlotlyChart (Imshow heatmap_df metrics_sel (index heatmap_df)
                               ''Player Performance Heatmap'')])
                 else Inr [])
              else Inr [])
         | ParallelCoordinates \<Rightarrow>
             (if length selected_players > 1 then
                (if metrics_sel \<noteq> [] then
                   Inr [PlotlyChart (Express ''parallel_coordinates'' fdf
                          [(''color'', Some ''Player_Name'')] metrics_sel
                          ''Parallel Coordinates Analysis'')]
                 else Inr [])
              else Inr [])))"

subsection \<open>The Advanced Comparisons page (lines 312--425)\<close>

text \<open>
  \<^verbatim>\<open>melt(id_vars='Player_Name')\<close> stacks the other columns into a pair of columns
  \<^verbatim>\<open>variable\<close> and \<^verbatim>\<open>value\<close>; \<^verbatim>\<open>head()\<close> keeps the first five rows. The \<^verbatim>\<open>try\<close>
  catches every exception of the three tabs: what was shown before stays, and the error
  and a preview of the filtered frame follow.
\<close>

datatype comparison_viz = CmpBarChart | CmpLineChart | CmpScatterMatrix

definition melt :: "dataframe \<Rightarrow> string \<Rightarrow> error + dataframe" where
  "melt df id_var =
     (case getitem df id_var of
        Inl e \<Rightarrow> Inl e
      | Inr ids \<Rightarrow>
          (let others = filter (\<lambda>p. fst p \<noteq> id_var) (columns df); n = nrows df
           in Inr \<lparr>index = range_index (n * length others),
                    columns =
                      [(id_var, ids\<lparr>vals := concat (replicate (length others) (vals ids))\<rparr>),
                       (''variable'',
                        \<lparr>dtype = Object,
                         vals = concat (map (\<lambda>p. replicate n (Str (fst p))) others)\<rparr>),
                       (''value'',
                        \<lparr>dtype = (if list_all (\<lambda>p. dtype (snd p) = Int64) others
                                  then Int64 else Float64),
                         vals = concat (map (\<lambda>p. vals (snd p)) others)\<rparr>)]\<rparr>))"

definition head :: "dataframe \<Rightarrow> dataframe" where
  "head df =
     \<lparr>index = take 5 (index df),
      columns = map (\<lambda>p. (fst p, (snd p)\<lparr>vals := take 5 (vals (snd p))\<rparr>)) (columns df)\<rparr>"

definition visual_comparison ::
  "comparison_viz \<Rightarrow> dataframe \<Rightarrow> string list \<Rightarrow> error + figure" where
  "visual_comparison viz_type cdf comparison_metrics =
     (case viz_type of
        CmpBarChart \<Rightarrow>
          (case melt cdf ''Player_Name'' of
             Inl e \<Rightarrow> Inl e
           | Inr long \<Rightarrow>
               Inr (Express ''bar'' long
                      [(''x'', Some ''Player_Name''), (''y'', Some ''value''),
                       (''color'', Some ''variable''), (''barmode'', Some ''group'')]
                      [] ''Metric Comparison''))
      | CmpLineChart \<Rightarrow>
          (case melt cdf ''Player_Name'' of
             Inl e \<Rightarrow> Inl e
           | Inr long \<Rightarrow>
               Inr (Express ''line'' long
                      [(''x'', Some ''variable''), (''y'', Some ''value''),
                       (''color'', Some ''Player_Name'')]
                      [] ''Metric Trends by Player''))
      | CmpScatterMatrix \<Rightarrow>
          Inr (Express ''scatter_matrix'' cdf [(''color'', Some ''Player_Name'')]
                 comparison_metrics ''Scatter Matrix of Player Metrics''))"

definition debug_info :: "dataframe \<Rightarrow> string list \<Rightarrow> error \<Rightarrow> error + rendered list" where
  "debug_info fdf comparison_metrics e =
     (case select_columns fdf (''Player_Name'' # comparison_metrics) of
        Inl e' \<Rightarrow> Inl e'
      | Inr cols \<Rightarrow>
          Inr [ErrorMsg ''Error generating comparison'' (Some e),
               DataTable (head \<lparr>index = index fdf, columns = cols\<rparr>)])"

definition advanced_comparisons ::
  "dataframe \<Rightarrow> cell list \<Rightarrow> string list \<Rightarrow> agg_method \<Rightarrow> comparison_viz
     \<Rightarrow> error + rendered list" where
  "advanced_comparisons fdf selected_players comparison_metrics comparison_method viz_type =
     (if length selected_players < 2
      then Inr [Warning ''Please select at least 2 players for comparison'']
      else if available_metrics fdf = []
      then Inr [ErrorMsg ''No numeric metrics found for comparison'' None]
      else if comparison_metrics = [] then Inr []
      else
        (case comparison_df comparison_method fdf comparison_metrics of
           Inl e \<Rightarrow> debug_info fdf comparison_metrics e
         | Inr cdf \<Rightarrow>
             (case visual_comparison viz_type cdf comparison_metrics of
                Inl e \<Rightarrow>
                  (case debug_info fdf comparison_metrics e of
                     Inl e' \<Rightarrow> Inl e'
                   | Inr shown \<Rightarrow> Inr (DataTable cdf # shown))
              | Inr fig2 \<Rightarrow>
                  (case radar_traces cdf comparison_metrics selected_players of
                     Inl e \<Rightarrow>
                       (case debug_info fdf comparison_metrics e of
                          Inl e' \<Rightarrow> Inl e'
                        | Inr shown \<Rightarrow> Inr (DataTable cdf # PlotlyChart fig2 # shown))
                   | Inr ts \<Rightarrow>
                       Inr [DataTable cdf, PlotlyChart fig2,
                            PlotlyChart (Figure ts ''Player Comparison Radar Chart'')]))))"

section \<open>Vocabulary of the properties\<close>

text \<open>
  A range is the full observed range of a frame when it is the pair of the minimum and
  the maximum of the Year column; a frame with no Year column, or with no row, has no
  observed range and puts no condition on the pair. A range narrows another when its
  lower bound is not lower and its upper bound not higher.
\<close>

definition full_range :: "dataframe \<Rightarrow> (rat \<times> rat) option \<Rightarrow> bool" where
  "full_range df r =
     (case getitem df ''Year'' of
        Inl e \<Rightarrow> True
      | Inr y \<Rightarrow>
          (case r of
             None \<Rightarrow> False
           | Some (lo, hi) \<Rightarrow> vals y = [] \<or> (series_min y = Num lo \<and> series_max y = Num hi)))"

definition narrower :: "(rat \<times> rat) option \<Rightarrow> (rat \<times> rat) option \<Rightarrow> bool" where
  "narrower r' r =
     (case (r', r) of
        (Some (lo', hi'), Some (lo, hi)) \<Rightarrow> lo \<le> lo' \<and> hi' \<le> hi
      | (None, None) \<Rightarrow> True
      | _ \<Rightarrow> False)"

text \<open>The cell of an aggregate frame for a metric and an entity.\<close>

definition aggregate_cell :: "dataframe \<Rightarrow> string \<Rightarrow> cell \<Rightarrow> cell option" where
  "aggregate_cell agg metric k =
     (case getitem agg ''Player_Name'' of
        Inl e \<Rightarrow> None
      | Inr ks \<Rightarrow>
          (case getitem agg metric of
             Inl e \<Rightarrow> None
           | Inr s \<Rightarrow> map_of (zip (vals ks) (vals s)) k))"



text \<open>The number a cell counts as in a comparison: a truth value counts as 0 or 1.\<close>

fun num_of :: "cell \<Rightarrow> rat option" where
  "num_of (Num v) = Some v"
| "num_of (Flag b) = Some (of_bool b)"
| "num_of c = None"

section \<open>Frames used as examples\<close>

text \<open>Entities A and B with a metric M: A has the values 10 and 20, B the value 5.\<close>

definition example_AB :: dataframe where
  "example_AB =
     \<lparr>index = [Num 0, Num 1, Num 2],
      columns = [(''Player_Name'', \<lparr>dtype = Object, vals = [Str ''A'', Str ''A'', Str ''B'']\<rparr>),
                 (''M'', \<lparr>dtype = Int64, vals = [Num 10, Num 20, Num 5]\<rparr>)]\<rparr>"

definition aggregate_of :: "dtype \<Rightarrow> rat \<Rightarrow> rat \<Rightarrow> dataframe" where
  "aggregate_of dt a b =
     \<lparr>index = [Num 0, Num 1],
      columns = [(''Player_Name'', \<lparr>dtype = Object, vals = [Str ''A'', Str ''B'']\<rparr>),
                 (''M'', \<lparr>dtype = dt, vals = [Num a, Num b]\<rparr>)]\<rparr>"

text \<open>
  The scenario of the specification, as \<^verbatim>\<open>read_csv\<close> returns it: rows (A, 2020, 100),
  (A, 2021, 150) and (B, 2020, 80). No text needs a parser here.
\<close>

definition scenario :: dataframe where
  "scenario =
     \<lparr>index = [Num 0, Num 1, Num 2],
      columns = [(''Player_Name'', \<lparr>dtype = Object, vals = [Str ''A'', Str ''A'', Str ''B'']\<rparr>),
                 (''Year'', \<lparr>dtype = Int64, vals = [Num 2020, Num 2021, Num 2020]\<rparr>),
                 (''Runs_Scored'', \<lparr>dtype = Int64, vals = [Num 100, Num 150, Num 80]\<rparr>)]\<rparr>"

definition no_parse :: parser where
  "no_parse t = None"

text \<open>A file with no Player_Name column: one row, Year 2020 and 100 runs.\<close>

definition no_player :: dataframe where
  "no_player =
     \<lparr>index = [Num 0],
      columns = [(''Year'', \<lparr>dtype = Int64, vals = [Num 2020]\<rparr>),
                 (''Runs_Scored'', \<lparr>dtype = Int64, vals = [Num 100]\<rparr>)]\<rparr>"



text \<open>A filtered frame in which B has no value of the metric M: rows (A, 10) and
  (B, missing).\<close>

definition missing_B :: dataframe where
  "missing_B =
     \<lparr>index = [Num 0, Num 1],
      columns = [(''Player_Name'', \<lparr>dtype = Object, vals = [Str ''A'', Str ''B'']\<rparr>),
                 (''M'', \<lparr>dtype = Float64, vals = [Num 10, NaN]\<rparr>)]\<rparr>"

text \<open>The scenario filtered to the year 2021 with A and B selected: only the row of A
  is left, and B is selected without a row.\<close>

definition only_A :: dataframe where
  "only_A =
     \<lparr>index = [Num 1],
      columns = [(''Player_Name'', \<lparr>dtype = Object, vals = [Str ''A'']\<rparr>),
                 (''Year'', \<lparr>dtype = Int64, vals = [Num 2021]\<rparr>),
                 (''Runs_Scored'', \<lparr>dtype = Int64, vals = [Num 150]\<rparr>)]\<rparr>"

definition only_A_mean :: dataframe where
  "only_A_mean =
     \<lparr>index = [Num 0],
      columns = [(''Player_Name'', \<lparr>dtype = Object, vals = [Str ''A'']\<rparr>),
                 (''Runs_Scored'', \<lparr>dtype = Float64, vals = [Num 150]\<rparr>)]\<rparr>"

definition only_A_preview :: dataframe where
  "only_A_preview =
     \<lparr>index = [Num 1],
      columns = [(''Player_Name'', \<lparr>dtype = Object, vals = [Str ''A'']\<rparr>),
                 (''Runs_Scored'', \<lparr>dtype = Int64, vals = [Num 150]\<rparr>)]\<rparr>"

text \<open>A file with no Player_Name column and two years: rows (2020, 100) and
  (2021, 150).\<close>

definition no_entity :: dataframe where
  "no_entity =
     \<lparr>index = [Num 0, Num 1],
      columns = [(''Year'', \<lparr>dtype = Int64, vals = [Num 2020, Num 2021]\<rparr>),
                 (''Runs_Scored'', \<lparr>dtype = Int64, vals = [Num 100, Num 150]\<rparr>)]\<rparr>"

text \<open>A file whose players are numbers, so that the catalog lists Player_Name itself:
  rows (7, 10) and (8, missing).\<close>

definition numbered :: dataframe where
  "numbered =
     \<lparr>index = [Num 0, Num 1],
      columns = [(''Player_Name'', \<lparr>dtype = Int64, vals = [Num 7, Num 8]\<rparr>),
                 (''M'', \<lparr>dtype = Float64, vals = [Num 10, NaN]\<rparr>)]\<rparr>"


section \<open>Rows kept by a mask, columns of a frame\<close>

lemma select_rows_Nil [simp]: "select_rows [] xs = []" "select_rows keep [] = []"
  by (simp_all add: select_rows_def)

lemma select_rows_Cons [simp]:
  "select_rows (b # keep) (x # xs) = (if b then x # select_rows keep xs else select_rows keep xs)"
  by (simp add: select_rows_def)

lemma length_select_rows:
  "length keep = length xs \<Longrightarrow> length (select_rows keep xs) = length (filter id keep)"
  by (induction keep xs rule: list_induct2) auto

lemma select_rows_all:
  "length keep = length xs \<Longrightarrow> list_all id keep \<Longrightarrow> select_rows keep xs = xs"
  by (induction keep xs rule: list_induct2) auto

lemma select_rows_none: "list_all Not keep \<Longrightarrow> select_rows keep xs = []"
proof (induction keep arbitrary: xs)
  case Nil
  then show ?case by simp
next
  case (Cons b keep)
  then show ?case by (cases xs) auto
qed

lemma select_rows_mono:
  "list_all2 (\<lambda>a b. a \<longrightarrow> b) keep' keep \<Longrightarrow>
     length (select_rows keep' xs) \<le> length (select_rows keep xs)"
proof (induction keep' keep arbitrary: xs rule: list_all2_induct)
  case Nil
  then show ?case by simp
next
  case (Cons a keep' b keep)
  show ?case
  proof (cases xs)
    case Nil
    then show ?thesis by simp
  next
    case (Cons x xs')
    with Cons.hyps Cons.IH [of xs'] show ?thesis by (auto simp: le_SucI)
  qed
qed

lemma set_select_rows: "set (select_rows keep xs) \<subseteq> set xs"
  unfolding select_rows_def by (auto dest: set_zip_rightD)

lemma list_all_select_rows: "list_all P xs \<Longrightarrow> list_all P (select_rows keep xs)"
  using set_select_rows [of keep xs] by (auto simp: list_all_iff)

lemma has_column_getitem: "has_column df col \<longleftrightarrow> (\<exists>s. getitem df col = Inr s)"
proof (cases "map_of (columns df) col")
  case None
  then have "col \<notin> fst ` set (columns df)" by (simp add: map_of_eq_None_iff)
  with None show ?thesis by (simp add: has_column_def getitem_def)
next
  case (Some s)
  then have "col \<in> fst ` set (columns df)" by (metis map_of_eq_None_iff option.distinct(1))
  with Some show ?thesis by (simp add: has_column_def getitem_def)
qed

lemma getitem_in_columns: "getitem df col = Inr s \<Longrightarrow> (col, s) \<in> set (columns df)"
  unfolding getitem_def by (auto split: option.splits dest: map_of_SomeD)

lemma not_has_column_getitem: "\<not> has_column df col \<Longrightarrow> getitem df col = Inl (KeyError col)"
  unfolding has_column_def getitem_def
  by (auto simp: map_of_eq_None_iff [symmetric] split: option.splits)

lemma wf_df_getitem:
  "wf_df df \<Longrightarrow> getitem df col = Inr s \<Longrightarrow> wf_series (length (index df)) s"
  by (auto simp: wf_df_def list_all_iff dest!: getitem_in_columns)

lemma wf_series_select:
  "wf_series n s \<Longrightarrow> length keep = n \<Longrightarrow>
     wf_series (length (filter id keep)) (s\<lparr>vals := select_rows keep (vals s)\<rparr>)"
  by (simp add: wf_series_def length_select_rows list_all_select_rows)

lemma wf_df_getitem_mask:
  assumes "wf_df df" and "length keep = length (index df)"
  shows "wf_df (getitem_mask df keep)"
  using assms
  by (auto simp: wf_df_def getitem_mask_def comp_def list_all_iff length_select_rows
           intro!: wf_series_select)

lemma select_rows_map_filter: "select_rows (map P xs) xs = filter P xs"
  by (induction xs) auto

lemma map_of_map_snd:
  "map_of (map (\<lambda>p. (fst p, f (snd p))) xs) c = map_option f (map_of xs c)"
  by (induction xs) auto

lemma getitem_getitem_mask:
  "getitem (getitem_mask df keep) col =
     (case getitem df col of
        Inl e \<Rightarrow> Inl e
      | Inr s \<Rightarrow> Inr (s\<lparr>vals := select_rows keep (vals s)\<rparr>))"
  using map_of_map_snd [of "\<lambda>s. s\<lparr>vals := select_rows keep (vals s)\<rparr>" "columns df" col]
  by (simp add: getitem_def getitem_mask_def split: option.splits)

lemma has_column_getitem_mask [simp]: "has_column (getitem_mask df keep) col = has_column df col"
  by (simp add: has_column_def getitem_mask_def comp_def)

lemma index_getitem_mask [simp]: "index (getitem_mask df keep) = select_rows keep (index df)"
  by (simp add: getitem_mask_def)

lemma map_of_replace_same:
  "c \<in> fst ` set xs \<Longrightarrow> map_of (map (\<lambda>p. if fst p = c then (c, s) else p) xs) c = Some s"
proof (induction xs)
  case Nil
  then show ?case by simp
next
  case (Cons p xs)
  then show ?case by (cases "fst p = c") auto
qed

lemma map_of_replace_other:
  "c' \<noteq> c \<Longrightarrow> map_of (map (\<lambda>p. if fst p = c then (c, s) else p) xs) c' = map_of xs c'"
  by (induction xs) auto

lemma getitem_setitem:
  "has_column df c \<Longrightarrow> getitem (setitem df c s) c' = (if c' = c then Inr s else getitem df c')"
  by (simp add: getitem_def setitem_def has_column_def map_of_replace_same map_of_replace_other)

lemma columns_setitem:
  "has_column df c \<Longrightarrow> map fst (columns (setitem df c s)) = map fst (columns df)"
  by (simp add: setitem_def has_column_def comp_def cong: map_cong)

lemma has_column_setitem:
  "has_column df c \<Longrightarrow> has_column (setitem df c s) c' = has_column df c'"
  by (simp add: has_column_def [of "setitem df c s"] columns_setitem) (simp add: has_column_def)

lemma index_setitem [simp]: "index (setitem df c s) = index df"
  by (simp add: setitem_def)

lemma wf_df_setitem:
  assumes "wf_df df" and "has_column df c" and "wf_series (length (index df)) s"
  shows "wf_df (setitem df c s)"
proof -
  have "distinct (map fst (columns (setitem df c s)))"
    using assms by (simp add: columns_setitem wf_df_def)
  moreover have "list_all (\<lambda>p. wf_series (length (index df)) (snd p)) (columns (setitem df c s))"
    using assms by (auto simp: setitem_def wf_df_def list_all_iff)
  ultimately show ?thesis by (simp add: wf_df_def)
qed

lemma coerce_cell_not_Str: "\<not> is_Str (coerce_cell parse c)"
  by (cases c) (auto split: option.splits literal.splits)

lemma coerce_cell_Float64: "cell_ok Float64 (coerce_cell parse c)"
  by (cases c) (auto split: option.splits literal.splits)

lemma is_Flag_Bool: "is_Flag c \<Longrightarrow> cell_ok Bool c"
  by (cases c) auto

lemma cell_ok_numeric: "dt \<noteq> Object \<Longrightarrow> cell_ok dt c \<Longrightarrow> \<not> is_Str c"
  by (cases dt; cases c) auto

lemma to_numeric_dtype: "dtype (to_numeric parse s) \<noteq> Object"
  by (simp add: to_numeric_def Let_def)

lemma wf_series_to_numeric: "wf_series n s \<Longrightarrow> wf_series n (to_numeric parse s)"
  by (auto simp: to_numeric_def Let_def wf_series_def list_all_iff coerce_cell_Float64
      is_Flag_Bool)

lemma to_numeric_idem: "dtype s \<noteq> Object \<Longrightarrow> to_numeric parse s = s"
  by (simp add: to_numeric_def)

section \<open>What the Loader returns\<close>

lemma coerce_columns_Inr:
  "wf_df df \<Longrightarrow> \<exists>df'. coerce_columns parse cols df = Inr df' \<and> wf_df df' \<and>
     index df' = index df \<and> map fst (columns df') = map fst (columns df)"
proof (induction cols arbitrary: df)
  case Nil
  then show ?case by simp
next
  case (Cons col cols)
  show ?case
  proof (cases "has_column df col")
    case False
    with Cons show ?thesis by simp
  next
    case True
    then obtain s where s: "getitem df col = Inr s"
      by (auto simp: has_column_getitem)
    let ?df1 = "setitem df col (to_numeric parse s)"
    have "wf_df ?df1"
      using Cons.prems True s by (intro wf_df_setitem wf_series_to_numeric wf_df_getitem)
    from Cons.IH [OF this] obtain df' where
      "coerce_columns parse cols ?df1 = Inr df'" "wf_df df'" "index df' = index ?df1"
      "map fst (columns df') = map fst (columns ?df1)"
      by blast
    with True s show ?thesis by (simp add: columns_setitem)
  qed
qed

text \<open>What a loaded frame is: well-typed, and its Year column, when it has one, is
  numeric and has no missing value.\<close>

lemma load_data_total:
  assumes "wf_df raw"
  shows "\<exists>df. load_data parse (Inr raw) = Some df"
proof -
  obtain d where d: "coerce_columns parse numeric_cols raw = Inr d"
    using coerce_columns_Inr [OF assms] by blast
  show ?thesis
    by (auto simp: load_data_def d dropna_def has_column_getitem getitem_setitem
        split: sum.splits)
qed

lemma load_data_loaded:
  assumes "wf_df raw" and "load_data parse (Inr raw) = Some df"
  shows "wf_df df"
    and "getitem df ''Year'' = Inr y \<Longrightarrow> dtype y \<noteq> Object \<and> NaN \<notin> set (vals y)"
proof -
  obtain d where d: "coerce_columns parse numeric_cols raw = Inr d" and wd: "wf_df d"
    using coerce_columns_Inr [OF assms(1)] by blast
  show "wf_df df"
  proof (cases "has_column d ''Year''")
    case False
    with assms(2) d wd show ?thesis by (simp add: load_data_def)
  next
    case True
    then obtain s where s: "getitem d ''Year'' = Inr s"
      by (auto simp: has_column_getitem)
    let ?d1 = "setitem d ''Year'' (to_numeric parse s)"
    have w1: "wf_df ?d1"
      using wd True s by (intro wf_df_setitem wf_series_to_numeric wf_df_getitem)
    have g1: "getitem ?d1 ''Year'' = Inr (to_numeric parse s)"
      using True by (simp add: getitem_setitem)
    have len: "length (vals (to_numeric parse s)) = length (index ?d1)"
      using wf_df_getitem [OF w1 g1] by (simp add: wf_series_def)
    have "df = getitem_mask ?d1 (map (\<lambda>c. c \<noteq> NaN) (vals (to_numeric parse s)))"
      using assms(2) d True s g1 by (simp add: load_data_def dropna_def)
    then show ?thesis using w1 len by (simp add: wf_df_getitem_mask)
  qed
  show "dtype y \<noteq> Object \<and> NaN \<notin> set (vals y)" if y: "getitem df ''Year'' = Inr y"
  proof (cases "has_column d ''Year''")
    case False
    with assms(2) d have "df = d" by (simp add: load_data_def)
    with False y show ?thesis by (simp add: not_has_column_getitem)
  next
    case True
    then obtain s where s: "getitem d ''Year'' = Inr s"
      by (auto simp: has_column_getitem)
    let ?d1 = "setitem d ''Year'' (to_numeric parse s)"
    let ?t = "to_numeric parse s"
    have g1: "getitem ?d1 ''Year'' = Inr ?t"
      using True by (simp add: getitem_setitem)
    have "df = getitem_mask ?d1 (map (\<lambda>c. c \<noteq> NaN) (vals ?t))"
      using assms(2) d True s g1 by (simp add: load_data_def dropna_def)
    with y g1 have "y = ?t\<lparr>vals := filter (\<lambda>c. c \<noteq> NaN) (vals ?t)\<rparr>"
      by (simp add: getitem_getitem_mask select_rows_map_filter)
    then show ?thesis by (simp add: to_numeric_dtype)
  qed
qed

lemma numeric_no_Str:
  assumes "wf_df df" and "getitem df col = Inr s" and "dtype s \<noteq> Object"
  shows "\<not> list_ex is_Str (vals s)"
  using wf_df_getitem [OF assms(1,2)] assms(3)
  by (auto simp: wf_series_def list_all_iff list_ex_iff dest: cell_ok_numeric)

section \<open>The example frames are loaded frames\<close>

lemma wf_scenario: "wf_df scenario"
  by (simp add: wf_df_def scenario_def wf_series_def in_int64_def is_integral_def)

lemma load_scenario: "load_data no_parse (Inr scenario) = Some scenario"
  by (simp add: load_data_def numeric_cols_def scenario_def has_column_def getitem_def
      setitem_def to_numeric_def dropna_def getitem_mask_def)

lemma wf_no_player: "wf_df no_player"
  by (simp add: wf_df_def no_player_def wf_series_def in_int64_def is_integral_def)

lemma load_no_player: "load_data no_parse (Inr no_player) = Some no_player"
  by (simp add: load_data_def numeric_cols_def no_player_def has_column_def getitem_def
      setitem_def to_numeric_def dropna_def getitem_mask_def)

lemma wf_no_entity: "wf_df no_entity"
  by (simp add: wf_df_def no_entity_def wf_series_def in_int64_def is_integral_def)

lemma load_no_entity: "load_data no_parse (Inr no_entity) = Some no_entity"
  by (simp add: load_data_def numeric_cols_def no_entity_def has_column_def getitem_def
      setitem_def to_numeric_def dropna_def getitem_mask_def)

section \<open>Aggregation\<close>

lemmas aggregator_defs =
  comparison_df_def groupby_agg_def getitem_def group_keys_def sort_cells_def agg_series_def
  group_vals_def reduce_def agg_value_def wrap_int64_def reset_index_def has_column_def
  range_index_def nrows_def

text \<open>
  Claim C1. On the frame with entities A and B and the metric M, where A has the values
  10 and 20 and B the value 5, grouping by entity and reducing M gives one row for A and
  one for B: the mean is 15 and 5, the sum 30 and 5, the maximum 20 and 5, the minimum
  10 and 5.
\<close>

theorem aggregation_example:
  "comparison_df MeanM example_AB [''M''] = Inr (aggregate_of Float64 15 5) \<and>
   comparison_df SumM example_AB [''M''] = Inr (aggregate_of Int64 30 5) \<and>
   comparison_df MaxM example_AB [''M''] = Inr (aggregate_of Int64 20 5) \<and>
   comparison_df MinM example_AB [''M''] = Inr (aggregate_of Int64 10 5)"
  by (simp add: example_AB_def aggregate_of_def aggregator_defs)

section \<open>Aggregating a group with no value\<close>

lemma agg_value_nothing:
  "present cs = [] \<Longrightarrow> agg_value m dt cs = (if m = SumM then Num 0 else NaN)"
  by (cases m) (simp_all add: agg_value_def reduce_def wrap_int64_def)

lemma agg_columns_names:
  "agg_columns m keys names fdf metrics = Inr cols \<Longrightarrow> map fst cols = metrics"
  by (induction metrics arbitrary: cols) (auto split: sum.splits)

lemma agg_columns_lookup:
  assumes "agg_columns m keys names fdf metrics = Inr cols"
    and "c \<in> set metrics" and "getitem fdf c = Inr s"
  shows "map_of cols c = Some \<lparr>dtype = (if m = MeanM then Float64 else dtype s),
                               vals = map (\<lambda>k. agg_value m (dtype s) (group_vals k names (vals s))) keys\<rparr>"
  using assms
proof (induction metrics arbitrary: cols)
  case Nil
  then show ?case by simp
next
  case (Cons d ds)
  then show ?case
    by (cases "c = d") (auto simp: agg_series_def split: sum.splits if_splits)
qed

lemma map_of_zip_map: "k \<in> set ks \<Longrightarrow> map_of (zip ks (map f ks)) k = Some (f k)"
  by (induction ks) auto


lemma comparison_df_shape:
  assumes "comparison_df m fdf metrics = Inr agg"
  obtains names cols where "getitem fdf ''Player_Name'' = Inr names"
    and "agg_columns m (group_keys (vals names)) (vals names) fdf metrics = Inr cols"
    and "''Player_Name'' \<notin> set metrics"
    and "agg = \<lparr>index = range_index (length (group_keys (vals names))),
                 columns = (''Player_Name'',
                            \<lparr>dtype = dtype names, vals = group_keys (vals names)\<rparr>) # cols\<rparr>"
proof -
  from assms obtain names cols where n: "getitem fdf ''Player_Name'' = Inr names"
    and c: "agg_columns m (group_keys (vals names)) (vals names) fdf metrics = Inr cols"
    and r: "reset_index ''Player_Name'' (dtype names)
              \<lparr>index = group_keys (vals names), columns = cols\<rparr> = Inr agg"
    by (auto simp: comparison_df_def groupby_agg_def Let_def split: sum.splits)
  from r have "''Player_Name'' \<notin> set (map fst cols)"
    by (auto simp: reset_index_def has_column_def split: if_splits)
  then have "''Player_Name'' \<notin> set metrics"
    using agg_columns_names [OF c] by simp
  moreover from r have "agg = \<lparr>index = range_index (length (group_keys (vals names))),
      columns = (''Player_Name'', \<lparr>dtype = dtype names, vals = group_keys (vals names)\<rparr>) # cols\<rparr>"
    by (auto simp: reset_index_def nrows_def split: if_splits)
  ultimately show ?thesis using n c that by blast
qed

lemma aggregate_cell_of_nothing:
  assumes "comparison_df m fdf metrics = Inr agg"
    and "getitem fdf ''Player_Name'' = Inr names"
    and "c \<in> set metrics" and "getitem fdf c = Inr s"
    and "k \<in> set (group_keys (vals names))"
    and "present (group_vals k (vals names) (vals s)) = []"
  shows "aggregate_cell agg c k = Some (if m = SumM then Num 0 else NaN)"
proof -
  let ?keys = "group_keys (vals names)"
  let ?f = "\<lambda>k. agg_value m (dtype s) (group_vals k (vals names) (vals s))"
  from assms(1) obtain names' cols where "getitem fdf ''Player_Name'' = Inr names'"
    and "agg_columns m (group_keys (vals names')) (vals names') fdf metrics = Inr cols"
    and ne: "''Player_Name'' \<notin> set metrics"
    and "agg = \<lparr>index = range_index (length (group_keys (vals names'))),
                 columns = (''Player_Name'',
                            \<lparr>dtype = dtype names', vals = group_keys (vals names')\<rparr>) # cols\<rparr>"
    by (rule comparison_df_shape)
  with assms(2) have cols: "agg_columns m ?keys (vals names) fdf metrics = Inr cols"
    and agg: "agg = \<lparr>index = range_index (length ?keys),
                 columns = (''Player_Name'', \<lparr>dtype = dtype names, vals = ?keys\<rparr>) # cols\<rparr>"
    by auto
  from ne assms(3) have c: "c \<noteq> ''Player_Name''" by auto
  have "getitem agg ''Player_Name'' = Inr \<lparr>dtype = dtype names, vals = ?keys\<rparr>"
    by (simp add: agg getitem_def)
  moreover have "getitem agg c = Inr \<lparr>dtype = (if m = MeanM then Float64 else dtype s),
                                      vals = map ?f ?keys\<rparr>"
    using agg_columns_lookup [OF cols assms(3,4)] c by (simp add: agg getitem_def)
  ultimately have "aggregate_cell agg c k = map_of (zip ?keys (map ?f ?keys)) k"
    by (simp add: aggregate_cell_def)
  also have "\<dots> = Some (?f k)" using assms(5) by (rule map_of_zip_map)
  also have "?f k = (if m = SumM then Num 0 else NaN)" using assms(6) by (rule agg_value_nothing)
  finally show ?thesis .
qed

lemma missing_B_mean:
  "comparison_df MeanM missing_B [''M'']
     = Inr \<lparr>index = [Num 0, Num 1],
            columns = [(''Player_Name'', \<lparr>dtype = Object, vals = [Str ''A'', Str ''B'']\<rparr>),
                       (''M'', \<lparr>dtype = Float64, vals = [Num 10, NaN]\<rparr>)]\<rparr>"
  by (simp add: missing_B_def aggregator_defs)

lemma missing_B_keys:
  "Str ''B'' \<in> set (group_keys (vals \<lparr>dtype = Object, vals = [Str ''A'', Str ''B'']\<rparr>))"
  by (simp add: group_keys_def sort_cells_def)

lemma missing_B_group:
  "present (group_vals (Str ''B'') (vals \<lparr>dtype = Object, vals = [Str ''A'', Str ''B'']\<rparr>)
             (vals \<lparr>dtype = Float64, vals = [Num 10, NaN]\<rparr>)) = []"
  by (simp add: group_vals_def)

lemma available_metric_numeric:
  assumes "c \<in> set (available_metrics fdf)"
  obtains s where "getitem fdf c = Inr s" and "dtype s = Int64 \<or> dtype s = Float64"
  using assms by (auto simp: available_metrics_def split: sum.splits)

lemma agg_columns_total:
  "set metrics \<subseteq> set (available_metrics fdf) \<Longrightarrow>
     \<exists>cols. agg_columns m keys names fdf metrics = Inr cols"
proof (induction metrics)
  case Nil
  then show ?case by simp
next
  case (Cons c cs)
  then have "c \<in> set (available_metrics fdf)" by simp
  then obtain s where "getitem fdf c = Inr s" "dtype s = Int64 \<or> dtype s = Float64"
    by (rule available_metric_numeric)
  moreover from Cons obtain rest where "agg_columns m keys names fdf cs = Inr rest"
    by auto
  ultimately show ?case by (simp add: agg_series_def)
qed

text \<open>With metrics from the catalog, a Player_Name column and Player_Name not among
  the metrics, the aggregation returns a frame with one row for each key.\<close>

lemma comparison_df_total:
  assumes "getitem fdf ''Player_Name'' = Inr names"
    and "set metrics \<subseteq> set (available_metrics fdf)" and "''Player_Name'' \<notin> set metrics"
  shows "\<exists>agg. comparison_df m fdf metrics = Inr agg \<and>
           nrows agg = length (group_keys (vals names))"
proof -
  obtain cols where c: "agg_columns m (group_keys (vals names)) (vals names) fdf metrics = Inr cols"
    using agg_columns_total [OF assms(2)] by blast
  have "map fst cols = metrics" using c by (rule agg_columns_names)
  with assms(3) have "\<not> has_column \<lparr>index = group_keys (vals names), columns = cols\<rparr> ''Player_Name''"
    by (simp add: has_column_def)
  with assms(1) c show ?thesis
    by (simp add: comparison_df_def groupby_agg_def reset_index_def nrows_def range_index_def)
qed

text \<open>
  Claim C2, as the script has it. The metrics requested are metrics of the catalog, and
  the entity column Player_Name is not one of them. For every entity of the filtered
  frame and every requested metric, when the entity has no non-missing value of the
  metric, the aggregation returns and the aggregate cell is missing under the mean, the
  maximum and the minimum, and is 0 under the sum.
\<close>

theorem aggregate_of_nothing:
  assumes "getitem fdf ''Player_Name'' = Inr names"
    and "set metrics \<subseteq> set (available_metrics fdf)" and "''Player_Name'' \<notin> set metrics"
    and "c \<in> set metrics" and "getitem fdf c = Inr s"
    and "k \<in> set (group_keys (vals names))"
    and "present (group_vals k (vals names) (vals s)) = []"
  shows "\<exists>agg. comparison_df m fdf metrics = Inr agg \<and>
           aggregate_cell agg c k = Some (if m = SumM then Num 0 else NaN)"
proof -
  obtain agg where a: "comparison_df m fdf metrics = Inr agg"
    using comparison_df_total [OF assms(1-3)] by blast
  then have "aggregate_cell agg c k = Some (if m = SumM then Num 0 else NaN)"
    using assms(1,4-7) by (rule aggregate_cell_of_nothing)
  with a show ?thesis by blast
qed

lemma missing_B_metrics: "available_metrics missing_B = [''M'']"
  by (simp add: available_metrics_def missing_B_def getitem_def)

theorem aggregate_of_nothing_witness:
  "getitem missing_B ''Player_Name'' = Inr \<lparr>dtype = Object, vals = [Str ''A'', Str ''B'']\<rparr> \<and>
   getitem missing_B ''M'' = Inr \<lparr>dtype = Float64, vals = [Num 10, NaN]\<rparr> \<and>
   set [''M''] \<subseteq> set (available_metrics missing_B) \<and>
   present (group_vals (Str ''B'') (vals \<lparr>dtype = Object, vals = [Str ''A'', Str ''B'']\<rparr>)
             (vals \<lparr>dtype = Float64, vals = [Num 10, NaN]\<rparr>)) = [] \<and>
   (\<exists>agg. comparison_df MeanM missing_B [''M''] = Inr agg \<and>
           aggregate_cell agg ''M'' (Str ''B'') = Some NaN) \<and>
   (\<exists>agg. comparison_df SumM missing_B [''M''] = Inr agg \<and>
           aggregate_cell agg ''M'' (Str ''B'') = Some (Num 0))"
proof -
  have n: "getitem missing_B ''Player_Name''
             = Inr \<lparr>dtype = Object, vals = [Str ''A'', Str ''B'']\<rparr>"
    by (simp add: missing_B_def getitem_def)
  have s: "getitem missing_B ''M'' = Inr \<lparr>dtype = Float64, vals = [Num 10, NaN]\<rparr>"
    by (simp add: missing_B_def getitem_def)
  have a: "set [''M''] \<subseteq> set (available_metrics missing_B)"
    by (simp add: missing_B_metrics)
  have p: "''Player_Name'' \<notin> set [''M'']" by simp
  have c: "''M'' \<in> set [''M'']" by simp
  note t = aggregate_of_nothing [OF n a p c s missing_B_keys missing_B_group]
  have "\<exists>agg. comparison_df MeanM missing_B [''M''] = Inr agg \<and>
           aggregate_cell agg ''M'' (Str ''B'') = Some NaN"
    using t [of MeanM] by simp
  moreover have "\<exists>agg. comparison_df SumM missing_B [''M''] = Inr agg \<and>
           aggregate_cell agg ''M'' (Str ''B'') = Some (Num 0)"
    using t [of SumM] by simp
  ultimately show ?thesis using n s a missing_B_group by (intro conjI)
qed

text \<open>
  Against claim C2 as stated: in the frame \<open>missing_B\<close> the entity B has no non-missing
  value of M, and under the sum its aggregate cell is the number 0, not a missing value.
  And in the frame \<open>numbered\<close>, whose players are numbers, the catalog lists
  Player_Name; with Player_Name and M requested, \<^verbatim>\<open>reset_index\<close> raises ValueError under
  every method, although the entity 8 has no value of M.
\<close>

theorem aggregate_sum_counterexample:
  "comparison_df SumM missing_B [''M''] = Inr (aggregate_of Float64 10 0) \<and>
   present (group_vals (Str ''B'') (vals \<lparr>dtype = Object, vals = [Str ''A'', Str ''B'']\<rparr>)
             (vals \<lparr>dtype = Float64, vals = [Num 10, NaN]\<rparr>)) = [] \<and>
   aggregate_cell (aggregate_of Float64 10 0) ''M'' (Str ''B'') = Some (Num 0) \<and>
   Num 0 \<noteq> NaN \<and>
   available_metrics numbered = [''Player_Name'', ''M''] \<and>
   comparison_df MeanM numbered [''Player_Name'', ''M''] = Inl ValueError \<and>
   comparison_df SumM numbered [''Player_Name'', ''M''] = Inl ValueError \<and>
   comparison_df MaxM numbered [''Player_Name'', ''M''] = Inl ValueError \<and>
   comparison_df MinM numbered [''Player_Name'', ''M''] = Inl ValueError"
proof -
  have "comparison_df SumM missing_B [''M''] = Inr (aggregate_of Float64 10 0)"
    by (simp add: missing_B_def aggregate_of_def aggregator_defs)
  moreover have "aggregate_cell (aggregate_of Float64 10 0) ''M'' (Str ''B'') = Some (Num 0)"
    by (simp add: aggregate_cell_def aggregate_of_def getitem_def)
  moreover have "available_metrics numbered = [''Player_Name'', ''M'']"
    by (simp add: available_metrics_def numbered_def getitem_def)
  moreover have "comparison_df m numbered [''Player_Name'', ''M''] = Inl ValueError" for m
    by (simp add: numbered_def comparison_df_def groupby_agg_def getitem_def agg_series_def
        reset_index_def has_column_def Let_def)
  ultimately show ?thesis using missing_B_group by simp
qed

section \<open>Filtering at its boundary values\<close>

lemma num_of_in_present: "c \<in> set cs \<Longrightarrow> num_of c = Some v \<Longrightarrow> v \<in> set (present cs)"
  by (induction cs rule: present.induct) auto

lemma in_present_num_of: "v \<in> set (present cs) \<Longrightarrow> \<exists>c\<in>set cs. num_of c = Some v"
  by (induction cs rule: present.induct) auto

lemma in_range_num_of: "num_of c = Some v \<Longrightarrow> in_range lo hi c = (lo \<le> v \<and> v \<le> hi)"
  by (cases c) auto

lemma series_min_le:
  assumes "series_min y = Num lo" and "c \<in> set (vals y)" and "num_of c = Some v"
  shows "lo \<le> v"
proof -
  from assms(1) obtain x xs where p: "present (vals y) = x # xs" and lo: "lo = fold min xs x"
    by (auto simp: series_min_def split: list.splits)
  have "v \<in> set (x # xs)" using num_of_in_present [OF assms(2,3)] p by simp
  then have "Min (set (x # xs)) \<le> v" by (intro Min_le) auto
  moreover have "Min (set (x # xs)) = fold min xs x" by (rule Min.set_eq_fold)
  ultimately show ?thesis by (simp only: lo)
qed

lemma series_max_ge:
  assumes "series_max y = Num hi" and "c \<in> set (vals y)" and "num_of c = Some v"
  shows "v \<le> hi"
proof -
  from assms(1) obtain x xs where p: "present (vals y) = x # xs" and hi: "hi = fold max xs x"
    by (auto simp: series_max_def split: list.splits)
  have "v \<in> set (x # xs)" using num_of_in_present [OF assms(2,3)] p by simp
  then have "v \<le> Max (set (x # xs))" by (intro Max_ge) auto
  moreover have "Max (set (x # xs)) = fold max xs x" by (rule Max.set_eq_fold)
  ultimately show ?thesis by (simp only: hi)
qed

lemma getitem_mask_all:
  assumes "wf_df df" and "length keep = length (index df)" and "list_all id keep"
  shows "getitem_mask df keep = df"
proof -
  have "select_rows keep (index df) = index df"
    using assms by (simp add: select_rows_all)
  moreover have "map (\<lambda>p. (fst p, (snd p)\<lparr>vals := select_rows keep (vals (snd p))\<rparr>)) (columns df)
      = columns df"
  proof (rule map_idI)
    fix p assume "p \<in> set (columns df)"
    with assms(1) have "length (vals (snd p)) = length (index df)"
      by (auto simp: wf_df_def list_all_iff wf_series_def)
    with assms show "(fst p, (snd p)\<lparr>vals := select_rows keep (vals (snd p))\<rparr>) = p"
      by (simp add: select_rows_all)
  qed
  ultimately show ?thesis by (simp add: getitem_mask_def)
qed

lemma map2_conj_all:
  "list_all id xs \<Longrightarrow> list_all id ys \<Longrightarrow> list_all id (map2 (\<and>) xs ys)"
  by (auto simp: list_all_iff dest: set_zip_leftD set_zip_rightD)

lemma in_range_all:
  assumes "\<not> list_ex is_Str (vals y)" and "NaN \<notin> set (vals y)"
    and "vals y = [] \<or> (series_min y = Num lo \<and> series_max y = Num hi)"
  shows "list_all (in_range lo hi) (vals y)"
  unfolding list_all_iff
proof
  fix c assume c: "c \<in> set (vals y)"
  with assms(1,2) obtain v where v: "num_of c = Some v"
    by (cases c) (auto simp: list_ex_iff)
  from c assms(3) have "series_min y = Num lo" "series_max y = Num hi" by auto
  with c v have "lo \<le> v" "v \<le> hi"
    by (auto intro: series_min_le series_max_ge)
  with v show "in_range lo hi c"
    by (simp add: in_range_num_of)
qed

text \<open>
  The round trip where the entity column exists: for every loaded frame with a
  Player_Name column, filtering with the full observed range of the Year column and with
  all the entity identifiers of the frame selected returns the frame itself, with the
  same row labels, the same columns and the same cells.
\<close>

lemma filter_round_trip:
  assumes "wf_df raw" and "load_data parse (Inr raw) = Some df"
    and "getitem df ''Player_Name'' = Inr names"
    and "set selected_players = set (vals names)"
    and "full_range df r"
  shows "apply_filters df r selected_players = Inr df"
proof -
  have wf: "wf_df df" using assms(1,2) by (rule load_data_loaded)
  have len_names: "length (vals names) = length (index df)"
    using wf_df_getitem [OF wf assms(3)] by (simp add: wf_series_def)
  have all_in: "list_all id (isin names selected_players)"
    using assms(4) by (simp add: isin_def list_all_iff)
  show ?thesis
  proof (cases "getitem df ''Year''")
    case (Inl e)
    then have "\<not> has_column df ''Year''" by (simp add: has_column_getitem)
    moreover have "getitem_mask df (isin names selected_players) = df"
      using wf len_names all_in by (intro getitem_mask_all) (simp_all add: isin_def)
    ultimately show ?thesis using assms(3) by (simp add: apply_filters_def)
  next
    case (Inr y)
    then have has: "has_column df ''Year''" by (auto simp: has_column_getitem)
    from assms(5) Inr obtain lo hi where r: "r = Some (lo, hi)"
      and full: "vals y = [] \<or> (series_min y = Num lo \<and> series_max y = Num hi)"
      by (auto simp: full_range_def split: option.splits)
    have year: "dtype y \<noteq> Object \<and> NaN \<notin> set (vals y)"
      using assms(1,2) Inr by (rule load_data_loaded)
    then have no_str: "\<not> list_ex is_Str (vals y)"
      using wf Inr by (intro numeric_no_Str) auto
    have len_y: "length (vals y) = length (index df)"
      using wf_df_getitem [OF wf Inr] by (simp add: wf_series_def)
    let ?keep = "map2 (\<and>) (map (in_range lo hi) (vals y)) (isin names selected_players)"
    have "list_all (in_range lo hi) (vals y)"
      using no_str year full by (intro in_range_all) auto
    then have "list_all id (map (in_range lo hi) (vals y))"
      by (simp add: list_all_iff)
    then have "list_all id ?keep"
      using all_in by (rule map2_conj_all)
    have "length ?keep = length (index df)"
      using len_y len_names by (simp add: isin_def)
    then have "getitem_mask df ?keep = df"
      using wf \<open>list_all id ?keep\<close> by (intro getitem_mask_all)
    then show ?thesis
      using has Inr r no_str assms(3) by (simp add: apply_filters_def between_def)
  qed
qed

section \<open>The default of the Year slider\<close>

lemma py_int_integral: "is_integral q \<Longrightarrow> of_int (py_int q) = q"
  by (simp add: is_integral_def py_int_def) (metis floor_of_int ceiling_of_int)

lemma fold_min_in: "fold min xs (x :: rat) \<in> set (x # xs)"
proof -
  have "Min (set (x # xs)) \<in> set (x # xs)" by (intro Min_in) auto
  moreover have "Min (set (x # xs)) = fold min xs x" by (rule Min.set_eq_fold)
  ultimately show ?thesis by simp
qed

lemma fold_max_in: "fold max xs (x :: rat) \<in> set (x # xs)"
proof -
  have "Max (set (x # xs)) \<in> set (x # xs)" by (intro Max_in) auto
  moreover have "Max (set (x # xs)) = fold max xs x" by (rule Max.set_eq_fold)
  ultimately show ?thesis by simp
qed

lemma series_min_cell: "series_min y = Num lo \<Longrightarrow> \<exists>c\<in>set (vals y). num_of c = Some lo"
  using fold_min_in by (auto simp: series_min_def split: list.splits intro!: in_present_num_of)

lemma series_max_cell: "series_max y = Num hi \<Longrightarrow> \<exists>c\<in>set (vals y). num_of c = Some hi"
  using fold_max_in by (auto simp: series_max_def split: list.splits intro!: in_present_num_of)

lemma cell_ok_Int64_num_of: "cell_ok Int64 c \<Longrightarrow> num_of c = Some v \<Longrightarrow> is_integral v"
  by (cases c) (auto simp: in_int64_def)

text \<open>
  The pair the slider starts at. When the Year column is int64 the truncation changes
  nothing and the pair is the full observed range; a float64 column with a fractional
  maximum starts below it, and a file with a single year makes the slider raise.
\<close>

lemma year_slider_full_range:
  assumes "wf_df df" and "getitem df ''Year'' = Inr y" and "dtype y = Int64"
    and "year_slider df = Inr r"
  shows "full_range df r"
proof -
  have has: "has_column df ''Year''" using assms(2) by (auto simp: has_column_getitem)
  from assms(4) has assms(2) obtain lo hi where lo: "series_min y = Num lo"
    and hi: "series_max y = Num hi"
    and r: "r = Some (of_int (py_int lo), of_int (py_int hi))"
    by (auto simp: year_slider_def split: cell.splits if_splits)
  have ok: "list_all (cell_ok Int64) (vals y)"
    using wf_df_getitem [OF assms(1,2)] assms(3) by (simp add: wf_series_def)
  have "is_integral lo"
    using ok series_min_cell [OF lo] by (auto simp: list_all_iff dest: cell_ok_Int64_num_of)
  moreover have "is_integral hi"
    using ok series_max_cell [OF hi] by (auto simp: list_all_iff dest: cell_ok_Int64_num_of)
  ultimately have "r = Some (lo, hi)" by (simp add: r py_int_integral)
  with lo hi assms(2) show ?thesis by (simp add: full_range_def)
qed

lemma year_slider_fraction:
  "year_slider \<lparr>index = [Num 0, Num 1],
                 columns = [(''Year'', \<lparr>dtype = Float64, vals = [Num 2020, Num (4043 / 2)]\<rparr>)]\<rparr>
     = Inr (Some (2020, 2021))"
  by (simp add: year_slider_def has_column_def getitem_def series_min_def series_max_def py_int_def
      floor_eq_iff)

lemma year_slider_single_year: "year_slider no_player = Inl StreamlitAPIException"
  by (simp add: year_slider_def no_player_def has_column_def getitem_def series_min_def
      series_max_def py_int_def)

section \<open>Filtering is monotone; filtering without the entity column\<close>

lemma in_range_mono:
  "lo \<le> lo' \<Longrightarrow> hi' \<le> hi \<Longrightarrow> in_range lo' hi' c \<Longrightarrow> in_range lo hi c"
  by (cases c) auto

lemma list_all2_map2_conj:
  assumes "list_all2 (\<lambda>a b. a \<longrightarrow> b) xs' xs" and "list_all2 (\<lambda>a b. a \<longrightarrow> b) ys' ys"
  shows "list_all2 (\<lambda>a b. a \<longrightarrow> b) (map2 (\<and>) xs' ys') (map2 (\<and>) xs ys)"
  using assms by (auto simp: list_all2_conv_all_nth)

lemma isin_mono:
  "set sel' \<subseteq> set sel \<Longrightarrow> list_all2 (\<lambda>a b. a \<longrightarrow> b) (isin names sel') (isin names sel)"
  by (auto simp: isin_def list_all2_conv_all_nth)

lemma between_mono:
  assumes "between y lo hi = Inr m" and "lo \<le> lo'" and "hi' \<le> hi"
  shows "\<exists>m'. between y lo' hi' = Inr m' \<and> list_all2 (\<lambda>a b. a \<longrightarrow> b) m' m"
  using assms
  by (auto simp: between_def list_all2_conv_all_nth split: if_splits intro: in_range_mono)

lemma nrows_getitem_mask_mono:
  "list_all2 (\<lambda>a b. a \<longrightarrow> b) keep' keep \<Longrightarrow>
     nrows (getitem_mask df keep') \<le> nrows (getitem_mask df keep)"
  by (simp add: nrows_def select_rows_mono)

text \<open>
  Claim C4. Filtering is monotone in its selection: whenever filtering succeeds,
  filtering the same frame with a narrower range of years (a higher lower bound, a lower
  upper bound) and with a subset of the selected entities succeeds too and returns at
  most as many rows.
\<close>

theorem filter_monotone:
  assumes "apply_filters df r sel = Inr a" and "narrower r' r" and "set sel' \<subseteq> set sel"
  shows "\<exists>b. apply_filters df r' sel' = Inr b \<and> nrows b \<le> nrows a"
proof (cases "has_column df ''Year''")
  case False
  with assms(1) obtain names where n: "getitem df ''Player_Name'' = Inr names"
    and a: "a = getitem_mask df (isin names sel)"
    by (auto simp: apply_filters_def split: sum.splits)
  have "nrows (getitem_mask df (isin names sel')) \<le> nrows a"
    unfolding a using assms(3) by (intro nrows_getitem_mask_mono isin_mono)
  with False n show ?thesis by (simp add: apply_filters_def)
next
  case True
  let ?in_years = "\<lambda>y r. case r of None \<Rightarrow> Inr (between_none y)
                                  | Some (lo, hi) \<Rightarrow> between y lo hi"
  from True assms(1) obtain y m names where y: "getitem df ''Year'' = Inr y"
    and m: "?in_years y r = Inr m"
    and n: "getitem df ''Player_Name'' = Inr names"
    and a: "a = getitem_mask df (map2 (\<and>) m (isin names sel))"
    by (auto simp: apply_filters_def split: sum.splits)
  have "\<exists>m'. ?in_years y r' = Inr m' \<and> list_all2 (\<lambda>a b. a \<longrightarrow> b) m' m"
  proof (cases r)
    case None
    with assms(2) have "r' = None" by (auto simp: narrower_def split: option.splits)
    with None m show ?thesis by (auto simp: list_all2_conv_all_nth)
  next
    case (Some p)
    obtain lo hi where p: "p = (lo, hi)" by (cases p)
    from assms(2) Some p obtain lo' hi' where r': "r' = Some (lo', hi')"
      and "lo \<le> lo'" "hi' \<le> hi"
      by (auto simp: narrower_def split: option.splits)
    moreover from m Some p have "between y lo hi = Inr m" by simp
    ultimately show ?thesis using between_mono [of y lo hi m lo' hi'] by simp
  qed
  then obtain m' where m': "?in_years y r' = Inr m'"
    and mm: "list_all2 (\<lambda>a b. a \<longrightarrow> b) m' m"
    by blast
  have "nrows (getitem_mask df (map2 (\<and>) m' (isin names sel'))) \<le> nrows a"
    unfolding a using mm assms(3)
    by (intro nrows_getitem_mask_mono list_all2_map2_conj isin_mono)
  with True y m' n show ?thesis by (simp add: apply_filters_def)
qed

lemma scenario_filtered:
  "apply_filters scenario (Some (2020, 2021)) [Str ''A'', Str ''B''] = Inr scenario"
  by (simp add: apply_filters_def scenario_def has_column_def getitem_def between_def isin_def
      getitem_mask_def)

theorem filter_monotone_witness:
  "apply_filters scenario (Some (2020, 2021)) [Str ''A'', Str ''B''] = Inr scenario \<and>
   narrower (Some (2020, 2020)) (Some (2020, 2021)) \<and>
   set [Str ''A''] \<subseteq> set [Str ''A'', Str ''B''] \<and>
   (\<exists>b. apply_filters scenario (Some (2020, 2020)) [Str ''A''] = Inr b \<and> nrows b \<le> nrows scenario)"
proof -
  have n: "narrower (Some (2020, 2020)) (Some (2020, 2021))"
    by (simp add: narrower_def)
  have s: "set [Str ''A''] \<subseteq> set [Str ''A'', Str ''B'']"
    by simp
  note t = filter_monotone [OF scenario_filtered n s]
  show ?thesis
    by (intro conjI) (rule scenario_filtered n s t)+
qed

text \<open>
  Claim C10. For every loaded frame that has no Player_Name column the filtering step
  raises an exception and returns no frame, whatever the selection is; with the pair the
  slider gives (a pair when there is a Year column) the exception is the KeyError of
  \<^verbatim>\<open>df['Player_Name']\<close>.
\<close>

theorem filter_without_player_name:
  assumes "wf_df raw" and "load_data parse (Inr raw) = Some df"
    and "\<not> has_column df ''Player_Name''"
  shows "(\<exists>e. apply_filters df r sel = Inl e) \<and>
         ((has_column df ''Year'' \<longrightarrow> r \<noteq> None) \<longrightarrow>
            apply_filters df r sel = Inl (KeyError ''Player_Name''))"
proof -
  have wf: "wf_df df" using assms(1,2) by (rule load_data_loaded)
  have n: "getitem df ''Player_Name'' = Inl (KeyError ''Player_Name'')"
    using assms(3) by (rule not_has_column_getitem)
  show ?thesis
  proof (cases "getitem df ''Year''")
    case (Inl e)
    then have "\<not> has_column df ''Year''" by (simp add: has_column_getitem)
    with n show ?thesis by (simp add: apply_filters_def)
  next
    case (Inr y)
    then have has: "has_column df ''Year''" by (auto simp: has_column_getitem)
    have "dtype y \<noteq> Object \<and> NaN \<notin> set (vals y)"
      using assms(1,2) Inr by (rule load_data_loaded)
    then have "\<not> list_ex is_Str (vals y)"
      using wf Inr by (intro numeric_no_Str) auto
    with has Inr n show ?thesis
      by (auto simp: apply_filters_def between_def split: option.splits)
  qed
qed

theorem filter_without_player_name_witness:
  "wf_df no_player \<and> load_data no_parse (Inr no_player) = Some no_player \<and>
   \<not> has_column no_player ''Player_Name'' \<and>
   apply_filters no_player (Some (2020, 2020)) [] = Inl (KeyError ''Player_Name'')"
proof -
  have h: "\<not> has_column no_player ''Player_Name''"
    by (simp add: has_column_def no_player_def)
  have y: "has_column no_player ''Year'' \<longrightarrow> Some (2020 :: rat, 2020 :: rat) \<noteq> None"
    by simp
  from filter_without_player_name [OF wf_no_player load_no_player h, of "Some (2020, 2020)" "[]"] y
  have t: "apply_filters no_player (Some (2020, 2020)) [] = Inl (KeyError ''Player_Name'')"
    by blast
  show ?thesis
    by (intro conjI) (rule wf_no_player load_no_player h t)+
qed

section \<open>The empty selection\<close>

lemma isin_Nil: "list_all Not (isin names [])"
  by (simp add: isin_def list_all_iff)

lemma map2_conj_none: "list_all Not ys \<Longrightarrow> list_all Not (map2 (\<and>) xs ys)"
  by (auto simp: list_all_iff dest: set_zip_rightD)

lemma nrows_getitem_mask_none: "list_all Not keep \<Longrightarrow> nrows (getitem_mask df keep) = 0"
  by (simp add: nrows_def select_rows_none)

text \<open>With a Player_Name column and a numeric Year column (as every loaded frame has
  it), the empty selection gives a frame with no row.\<close>

lemma filter_empty_selection:
  assumes "wf_df raw" and "load_data parse (Inr raw) = Some df"
    and "has_column df ''Player_Name''"
  shows "\<exists>b. apply_filters df (Some (lo, hi)) [] = Inr b \<and> nrows b = 0"
proof -
  have wf: "wf_df df" using assms(1,2) by (rule load_data_loaded)
  from assms(3) obtain names where n: "getitem df ''Player_Name'' = Inr names"
    by (auto simp: has_column_getitem)
  show ?thesis
  proof (cases "getitem df ''Year''")
    case (Inl e)
    then have "\<not> has_column df ''Year''" by (simp add: has_column_getitem)
    with n show ?thesis
      by (simp add: apply_filters_def nrows_getitem_mask_none isin_Nil)
  next
    case (Inr y)
    then have has: "has_column df ''Year''" by (auto simp: has_column_getitem)
    have "dtype y \<noteq> Object \<and> NaN \<notin> set (vals y)"
      using assms(1,2) Inr by (rule load_data_loaded)
    then have "\<not> list_ex is_Str (vals y)"
      using wf Inr by (intro numeric_no_Str) auto
    with has Inr n show ?thesis
      by (simp add: apply_filters_def between_def nrows_getitem_mask_none map2_conj_none isin_Nil)
  qed
qed

text \<open>The Aggregator on a frame with no row returns a frame with no row, under every
  reduction.\<close>

lemma aggregate_zero_rows:
  assumes "wf_df fdf" and "nrows fdf = 0" and "getitem fdf ''Player_Name'' = Inr names"
    and "set metrics \<subseteq> set (available_metrics fdf)" and "''Player_Name'' \<notin> set metrics"
  shows "\<exists>agg. comparison_df m fdf metrics = Inr agg \<and> nrows agg = 0"
proof -
  have "vals names = []"
    using wf_df_getitem [OF assms(1,3)] assms(2) by (simp add: wf_series_def nrows_def)
  then have "group_keys (vals names) = []"
    by (simp add: group_keys_def sort_cells_def)
  with comparison_df_total [OF assms(3-5), of m] show ?thesis by simp
qed

lemma no_entity_slider: "year_slider no_entity = Inr (Some (2020, 2021))"
  by (simp add: year_slider_def no_entity_def has_column_def getitem_def series_min_def
      series_max_def py_int_def)

lemma no_entity_filtered:
  "apply_filters no_entity (Some (2020, 2021)) sel = Inl (KeyError ''Player_Name'')"
  by (simp add: apply_filters_def no_entity_def has_column_def getitem_def between_def)

text \<open>
  Claim C5 at a frame the script can load: the file has the years 2020 and 2021 and no
  Player_Name column, so the list of players is empty (line 66) and nothing can be
  selected; the slider gives (2020, 2021). Filtering with the empty selection raises
  KeyError instead of returning a frame with no row.
\<close>

theorem empty_selection_without_player_name:
  "load_data no_parse (Inr no_entity) = Some no_entity \<and>
   year_slider no_entity = Inr (Some (2020, 2021)) \<and>
   apply_filters no_entity (Some (2020, 2021)) [] = Inl (KeyError ''Player_Name'')"
  by (simp add: load_no_entity no_entity_slider no_entity_filtered)

text \<open>
  Claim C3 at the same file: it has no entity identifier, so the full set of them is
  empty, and (2020, 2021) is the full observed range of its Year column. Filtering with
  that range and that set does not return the frame; it raises KeyError. Where the
  Player_Name column exists the round trip holds (\<open>filter_round_trip\<close>).
\<close>

theorem round_trip_without_player_name:
  "load_data no_parse (Inr no_entity) = Some no_entity \<and>
   \<not> has_column no_entity ''Player_Name'' \<and>
   full_range no_entity (Some (2020, 2021)) \<and>
   apply_filters no_entity (Some (2020, 2021)) [] \<noteq> Inr no_entity"
proof -
  have "\<not> has_column no_entity ''Player_Name''"
    by (simp add: has_column_def no_entity_def)
  moreover have "full_range no_entity (Some (2020, 2021))"
    by (simp add: full_range_def no_entity_def getitem_def series_min_def series_max_def)
  ultimately show ?thesis by (simp add: load_no_entity no_entity_filtered)
qed

section \<open>The Metric Catalog\<close>


lemma available_metrics_getitem_mask:
  "available_metrics (getitem_mask df keep) = available_metrics df"
proof -
  have "map fst (columns (getitem_mask df keep)) = map fst (columns df)"
    by (simp add: getitem_mask_def comp_def)
  then show ?thesis
    by (auto simp: available_metrics_def getitem_getitem_mask split: sum.splits
        intro!: filter_cong)
qed

text \<open>The catalog of a filtered frame is the catalog of the frame.\<close>

lemma available_metrics_filtered:
  "apply_filters df r sel = Inr fdf \<Longrightarrow> available_metrics fdf = available_metrics df"
  by (auto simp: apply_filters_def available_metrics_getitem_mask
      split: if_splits sum.splits option.splits)

lemma wf_df_filtered:
  assumes "wf_df df" and "apply_filters df r sel = Inr fdf"
  shows "wf_df fdf"
proof -
  from assms(2) obtain keep names where n: "getitem df ''Player_Name'' = Inr names"
    and k: "fdf = getitem_mask df keep"
    and l: "length keep = length (vals names) \<or>
             (\<exists>y. getitem df ''Year'' = Inr y \<and> length keep = min (length (vals y)) (length (vals names)))"
    by (auto simp: apply_filters_def isin_def between_def between_none_def
        split: if_splits sum.splits option.splits)
  have "length (vals names) = length (index df)"
    using wf_df_getitem [OF assms(1) n] by (simp add: wf_series_def)
  moreover have "length (vals y) = length (index df)" if "getitem df ''Year'' = Inr y" for y
    using wf_df_getitem [OF assms(1) that] by (simp add: wf_series_def)
  ultimately have "length keep = length (index df)" using l by auto
  then show ?thesis unfolding k using assms(1) by (intro wf_df_getitem_mask)
qed








section \<open>The coerced columns hold no text\<close>

lemma coerce_columns_numeric:
  assumes "wf_df df" and "coerce_columns parse cols df = Inr df'" and "getitem df' c = Inr s'"
    and "c \<in> set cols \<or> (\<exists>s. getitem df c = Inr s \<and> dtype s \<noteq> Object)"
  shows "dtype s' \<noteq> Object"
  using assms
proof (induction cols arbitrary: df)
  case Nil
  then show ?case by auto
next
  case (Cons col cols)
  show ?case
  proof (cases "has_column df col")
    case False
    then have step: "coerce_columns parse cols df = Inr df'"
      using Cons.prems(2) by simp
    have "c \<noteq> col"
    proof
      assume "c = col"
      obtain d where "coerce_columns parse cols df = Inr d"
        and "map fst (columns d) = map fst (columns df)"
        using coerce_columns_Inr [OF Cons.prems(1)] by blast
      with step have "map fst (columns df') = map fst (columns df)" by simp
      then have "has_column df' col = has_column df col" by (simp add: has_column_def)
      with False \<open>c = col\<close> Cons.prems(3) show False by (auto simp: has_column_getitem)
    qed
    with Cons.prems(4) have "c \<in> set cols \<or> (\<exists>s. getitem df c = Inr s \<and> dtype s \<noteq> Object)"
      by auto
    with Cons.IH [OF Cons.prems(1) step Cons.prems(3)] show ?thesis by blast
  next
    case True
    then obtain s0 where s0: "getitem df col = Inr s0"
      by (auto simp: has_column_getitem)
    let ?df1 = "setitem df col (to_numeric parse s0)"
    have wf1: "wf_df ?df1"
      using Cons.prems(1) True s0 by (intro wf_df_setitem wf_series_to_numeric wf_df_getitem)
    have step: "coerce_columns parse cols ?df1 = Inr df'"
      using Cons.prems(2) True s0 by simp
    have "c \<in> set cols \<or> (\<exists>s. getitem ?df1 c = Inr s \<and> dtype s \<noteq> Object)"
    proof (cases "c = col")
      case True
      then show ?thesis
        using \<open>has_column df col\<close> by (simp add: getitem_setitem to_numeric_dtype)
    next
      case False
      with Cons.prems(4) \<open>has_column df col\<close> show ?thesis
        by (auto simp: getitem_setitem)
    qed
    with Cons.IH [OF wf1 step Cons.prems(3)] show ?thesis by blast
  qed
qed

text \<open>After the Loader, no column of the coercion set that the file has, nor the Year
  column, is an object column: its dtype is int64, uint64, float64 or bool, and the
  catalog lists it when it is int64 or float64.\<close>

lemma coerced_columns_typed:
  assumes "wf_df raw" and "load_data parse (Inr raw) = Some df" and "has_column df c"
    and "c \<in> set numeric_cols \<or> c = ''Year''"
  shows "\<exists>s. getitem df c = Inr s \<and> dtype s \<noteq> Object"
proof -
  obtain d where d: "coerce_columns parse numeric_cols raw = Inr d" and wd: "wf_df d"
    using coerce_columns_Inr [OF assms(1)] by blast
  from assms(3) obtain s where s: "getitem df c = Inr s"
    by (auto simp: has_column_getitem)
  have "dtype s \<noteq> Object"
  proof (cases "has_column d ''Year''")
    case False
    with assms(2) d have eq: "df = d" by (simp add: load_data_def)
    with False assms(3,4) have "c \<in> set numeric_cols" by auto
    with coerce_columns_numeric [OF assms(1) d] s eq show ?thesis by blast
  next
    case True
    then obtain y where y: "getitem d ''Year'' = Inr y"
      by (auto simp: has_column_getitem)
    let ?t = "to_numeric parse y"
    let ?d1 = "setitem d ''Year'' ?t"
    have g1: "getitem ?d1 ''Year'' = Inr ?t"
      using True by (simp add: getitem_setitem)
    have "df = getitem_mask ?d1 (map (\<lambda>c. c \<noteq> NaN) (vals ?t))"
      using assms(2) d True y g1 by (simp add: load_data_def dropna_def)
    with s obtain s1 where s1: "getitem ?d1 c = Inr s1" and dt: "dtype s = dtype s1"
      by (auto simp: getitem_getitem_mask split: sum.splits)
    show ?thesis
    proof (cases "c = ''Year''")
      case True
      with s1 g1 have "s1 = ?t" by simp
      with dt show ?thesis by (simp only: to_numeric_dtype not_False_eq_True)
    next
      case False
      with s1 \<open>has_column d ''Year''\<close> have "getitem d c = Inr s1"
        by (simp add: getitem_setitem)
      moreover from False assms(4) have "c \<in> set numeric_cols" by simp
      ultimately have "dtype s1 \<noteq> Object"
        using coerce_columns_numeric [OF assms(1) d] by blast
      with dt show ?thesis by simp
    qed
  qed
  with s show ?thesis by simp
qed

section \<open>The Chart Dispatcher on incomplete selections\<close>

lemma only_A_filtered:
  "apply_filters scenario (Some (2021, 2021)) [Str ''A'', Str ''B''] = Inr only_A"
  by (simp add: apply_filters_def scenario_def only_A_def has_column_def getitem_def between_def
      isin_def getitem_mask_def)

lemma only_A_aggregate: "comparison_df MeanM only_A [''Runs_Scored''] = Inr only_A_mean"
  by (simp add: only_A_def only_A_mean_def aggregator_defs)

lemma only_A_radar:
  "radar_traces only_A_mean [''Runs_Scored''] [Str ''A'', Str ''B''] = Inl IndexError"
  by (simp add: only_A_mean_def getitem_def eq_mask_def getitem_mask_def first_row_def nrows_def)

lemma only_A_metrics: "available_metrics only_A = [''Year'', ''Runs_Scored'']"
  by (simp add: available_metrics_def only_A_def getitem_def)

lemma only_A_debug:
  "debug_info only_A [''Runs_Scored''] e
     = Inr [ErrorMsg ''Error generating comparison'' (Some e), DataTable only_A_preview]"
  by (simp add: debug_info_def only_A_def only_A_preview_def getitem_def head_def)

text \<open>
  Claim C7 at a selection the sidebar allows: A and B are selected and the year range
  (2021, 2021) leaves only the row of A. The radar loop of the Performance Analysis page
  raises IndexError at B and the page shows no chart; the radar loop of the Advanced
  Comparisons page raises it too, and the page shows the error in place of the radar
  chart of A. Neither loop skips B.
\<close>

theorem radar_missing_entity:
  "apply_filters scenario (Some (2021, 2021)) [Str ''A'', Str ''B''] = Inr only_A \<and>
   performance_analysis only_A [Str ''A'', Str ''B''] RadarChart (Some ''Runs_Scored'') ''None''
       [''Runs_Scored'']
     = Inl IndexError \<and>
   advanced_comparisons only_A [Str ''A'', Str ''B''] [''Runs_Scored''] MeanM CmpScatterMatrix
     = Inr [DataTable only_A_mean,
            PlotlyChart (Express ''scatter_matrix'' only_A_mean [(''color'', Some ''Player_Name'')]
                           [''Runs_Scored''] ''Scatter Matrix of Player Metrics''),
            ErrorMsg ''Error generating comparison'' (Some IndexError),
            DataTable only_A_preview]"
proof -
  have "performance_analysis only_A [Str ''A'', Str ''B''] RadarChart (Some ''Runs_Scored'')
          ''None'' [''Runs_Scored''] = Inl IndexError"
    by (simp add: performance_analysis_def only_A_aggregate only_A_radar del: radar_traces.simps)
  moreover have "advanced_comparisons only_A [Str ''A'', Str ''B''] [''Runs_Scored''] MeanM
      CmpScatterMatrix
     = Inr [DataTable only_A_mean,
            PlotlyChart (Express ''scatter_matrix'' only_A_mean [(''color'', Some ''Player_Name'')]
                           [''Runs_Scored''] ''Scatter Matrix of Player Metrics''),
            ErrorMsg ''Error generating comparison'' (Some IndexError),
            DataTable only_A_preview]"
    by (simp add: advanced_comparisons_def only_A_metrics only_A_aggregate only_A_radar
        only_A_debug visual_comparison_def del: radar_traces.simps)
  ultimately show ?thesis using only_A_filtered by (intro conjI)
qed

text \<open>The sibling branches warn on an unmet precondition: the scatter and the combo
  branch when their secondary metric is missing, the Advanced Comparisons page below two
  players, and the Performance Analysis page when nobody is selected.\<close>

lemma sibling_branches_warn:
  "performance_analysis fdf (p # ps) ScatterPlot pm ''None'' ms
     = Inr [Warning ''Please select a secondary metric for scatter plot'']"
  "performance_analysis fdf (p # ps) ComboChart pm ''None'' ms
     = Inr [Warning ''Please select a secondary metric for combo chart'']"
  "advanced_comparisons fdf [p] cms m cv
     = Inr [Warning ''Please select at least 2 players for comparison'']"
  "performance_analysis fdf [] v pm sm ms = Inr [Warning ''Please select at least one player'']"
  by (simp_all add: performance_analysis_def advanced_comparisons_def)

text \<open>
  Claim C8 on the code. A heatmap with exactly one entity selected shows nothing:
  neither a chart nor the warning the claim asks for. The same holds for a heatmap with
  two or more entities and no metric selected, and for parallel coordinates with no
  metric selected.
\<close>

theorem heatmap_parallel_silent:
  "performance_analysis fdf [p] Heatmap pm sm ms = Inr [] \<and>
   performance_analysis fdf (p # q # ps) Heatmap pm sm [] = Inr [] \<and>
   performance_analysis fdf (p # ps) ParallelCoordinates pm sm [] = Inr []"
  by (simp add: performance_analysis_def)

end
